theory Spec2Isabelle
  imports Complex_Main
begin

section \<open>Data model\<close>

text \<open>
  The order ledger, the download gate and the cart store of the marketplace backend
  (\<^verbatim>\<open>routes/order.routes.ts\<close>, \<^verbatim>\<open>routes/admin.routes.ts\<close>, \<^verbatim>\<open>routes/cart.routes.ts\<close>,
  \<^verbatim>\<open>services/upi.service.ts\<close>, \<^verbatim>\<open>services/cloudinary.service.ts\<close>).

  Every handler is an \<^verbatim>\<open>async\<close> function around one \<^verbatim>\<open>try { ... } catch\<close>. It is
  modelled as a function from the stores it touches to its HTTP outcome and the stores
  afterwards. A handler runs without interruption between two of its \<^verbatim>\<open>await\<close>s; the
  download handler is also given in its two parts, before and after its last
  \<^verbatim>\<open>await\<close>, so that two overlapping requests can be run.
\<close>

type_synonym ident = string

text \<open>A JavaScript \<^verbatim>\<open>Date\<close>: milliseconds since the epoch.\<close>
type_synonym time = int

text \<open>
  A Prisma \<^verbatim>\<open>Decimal\<close>, the type of a price: an exact decimal number, which the
  handlers convert with \<^verbatim>\<open>Number()\<close> before they add it.
\<close>
type_synonym decimal = rat

subsection \<open>JavaScript numbers\<close>

text \<open>
  A JavaScript number is a double: a finite one, given here by its exact value, an
  infinity or \<^verbatim>\<open>NaN\<close>. The sign of zero is not modelled.
\<close>
datatype number = Num rat | PosInfinity | NegInfinity | NaN

definition pow2 :: "int \<Rightarrow> rat" where
  "pow2 k = (if 0 \<le> k then 2 ^ nat k else 1 / 2 ^ nat (- k))"

text \<open>The number of binary digits of a natural number.\<close>
fun bitLength :: "nat \<Rightarrow> nat" where
  "bitLength n = (if n = 0 then 0 else Suc (bitLength (n div 2)))"

declare bitLength.simps [simp del]

text \<open>For \<open>a > 0\<close>: the exponent \<open>e\<close> with \<open>2 ^ e \<le> a < 2 ^ (e + 1)\<close>.\<close>
definition floorLog2 :: "rat \<Rightarrow> int" where
  "floorLog2 a =
     (if 1 \<le> a then int (bitLength (nat \<lfloor>a\<rfloor>)) - 1
      else - int (bitLength (nat (\<lceil>1 / a\<rceil> - 1))))"

text \<open>The nearest integer, the even one of the two when they are equally near.\<close>
definition roundHalfEven :: "rat \<Rightarrow> int" where
  "roundHalfEven m =
     (let f = \<lfloor>m\<rfloor>; r = m - of_int f
      in if r < 1 / 2 then f else if 1 / 2 < r then f + 1 else if even f then f else f + 1)"

text \<open>
  The double nearest to an exact value (IEEE 754 binary64, round to nearest, ties to
  even): 53 significant bits, the exponent of the last bit not below \<open>-1074\<close>, and an
  infinity when the rounded magnitude reaches \<open>2 ^ 1024\<close>.
\<close>
definition roundDouble :: "rat \<Rightarrow> number" where
  "roundDouble x =
     (if x = 0 then Num 0
      else
        let a = \<bar>x\<bar>;
            q = max (floorLog2 a) (- 1022) - 52;
            r = of_int (roundHalfEven (a / pow2 q)) * pow2 q
        in if pow2 1024 \<le> r then (if 0 < x then PosInfinity else NegInfinity)
           else Num (if 0 < x then r else - r))"

text \<open>\<^verbatim>\<open>a + b\<close> on numbers.\<close>
fun jsAdd :: "number \<Rightarrow> number \<Rightarrow> number" where
  "jsAdd (Num a) (Num b) = roundDouble (a + b)"
| "jsAdd NaN _ = NaN"
| "jsAdd _ NaN = NaN"
| "jsAdd PosInfinity NegInfinity = NaN"
| "jsAdd NegInfinity PosInfinity = NaN"
| "jsAdd PosInfinity _ = PosInfinity"
| "jsAdd _ PosInfinity = PosInfinity"
| "jsAdd NegInfinity _ = NegInfinity"
| "jsAdd _ NegInfinity = NegInfinity"

text \<open>\<^verbatim>\<open>Number(x)\<close> for a \<^verbatim>\<open>Decimal\<close>: the double nearest to it.\<close>
definition Number :: "decimal \<Rightarrow> number" where
  "Number x = roundDouble x"


text \<open>
  \<^verbatim>\<open>parseFloat(x.toFixed(2))\<close>: \<^verbatim>\<open>toFixed(2)\<close> prints the nearest multiple of 0.01, the
  larger in magnitude of two equally near, and prints numbers from \<^verbatim>\<open>1e21\<close> on, the
  infinities and \<^verbatim>\<open>NaN\<close> as \<^verbatim>\<open>String\<close> does.
\<close>
definition parseFloatToFixed2 :: "number \<Rightarrow> number" where
  "parseFloatToFixed2 x =
     (case x of
        Num v \<Rightarrow>
          if 10 ^ 21 \<le> \<bar>v\<bar> then Num v
          else Number ((if v < 0 then - 1 else 1) * of_int \<lfloor>\<bar>v\<bar> * 100 + 1 / 2\<rfloor> / 100)
      | _ \<Rightarrow> x)"

subsection \<open>Tables\<close>

datatype paymentStatus = PENDING | SUBMITTED | VERIFIED | FAILED

text \<open>
  Modelled from the spec: the Prisma schema is not part of the sources. The order status
  "starts PENDING/open, becomes COMPLETED when payment is VERIFIED, becomes CANCELLED when
  payment is FAILED"; the code writes \<^verbatim>\<open>'COMPLETED'\<close> and \<^verbatim>\<open>'CANCELLED'\<close>.
\<close>
datatype orderStatus = ORDER_PENDING | COMPLETED | CANCELLED

record product =
  p_id :: ident
  p_title :: string
  p_price :: decimal
  p_fileUrl :: string
  p_isActive :: bool
  p_downloadCount :: int

record order =
  o_id :: ident
  o_orderNumber :: string
  o_userId :: ident
  o_userEmail :: string
  o_totalAmount :: number
  o_paymentStatus :: paymentStatus
  o_orderStatus :: orderStatus
  o_utrNumber :: "string option"
  o_paidAt :: "time option"

record orderItem =
  i_id :: ident
  i_orderId :: ident
  i_productId :: ident
  i_productTitle :: string
  i_productPrice :: decimal
  i_downloadCount :: int
  i_downloadLimit :: int
  i_expiresAt :: "time option"
  i_downloadUrl :: "string option"

record downloadLog =
  l_userId :: ident
  l_orderItemId :: ident
  l_productId :: ident
  l_ipAddress :: "string option"
  l_userAgent :: "string option"

text \<open>The \<^verbatim>\<open>details\<close> column holds \<^verbatim>\<open>JSON.stringify\<close> of one of two objects.\<close>
datatype adminDetails =
  VerifiedPayment string number
| RejectedPayment string "string option"

record adminLog =
  a_adminId :: ident
  a_action :: string
  a_entityType :: string
  a_entityId :: ident
  a_details :: adminDetails
  a_ipAddress :: "string option"

text \<open>The relational store behind \<^verbatim>\<open>prisma\<close>: one list of rows per table.\<close>
record db =
  products :: "product list"
  orders :: "order list"
  orderItems :: "orderItem list"
  downloadLogs :: "downloadLog list"
  adminLogs :: "adminLog list"

text \<open>
  The ephemeral store behind \<^verbatim>\<open>redis\<close>: a cart key holds the JSON array of product
  ids. The time to live that \<^verbatim>\<open>setex\<close> attaches to a key is not modelled.
\<close>
type_synonym redis = "string \<rightharpoonup> ident list"

subsection \<open>The environment of one request\<close>

text \<open>
  The calls a handler makes to a collaborator. Each of them can reject or throw; the
  handler's \<^verbatim>\<open>catch\<close> block then answers with status 500.
\<close>
datatype call =
  RedisGet | RedisSetex | RedisDel
| ProductFindMany | ProductFindUnique | ProductUpdate
| OrderCreate | OrderFindFirst | OrderFindUnique | OrderUpdate
| OrderItemFindFirst | OrderItemUpdate ident
| DownloadLogCreate | AdminLogCreate
| QRCodeToDataURL | CloudinaryUrl

record upiPaymentDetails =
  u_upiId :: string
  u_name :: string
  u_amount :: number
  u_orderId :: string

text \<open>
  What a request reads from outside the two stores: which collaborator calls fail, the
  successive readings of the clock (\<^verbatim>\<open>new Date()\<close>, \<^verbatim>\<open>Date.now()\<close>; reading \<open>k\<close> is the
  \<open>k\<close>-th one the handler makes), the calendar fields of the date read by
  \<^verbatim>\<open>generateOrderNumber\<close>, the text of \<^verbatim>\<open>Math.random().toString(36)\<close>, the identifiers
  the database gives to new rows, the process environment variables, and the two library
  functions \<^verbatim>\<open>cloudinary.url\<close> and \<^verbatim>\<open>QRCode.toDataURL\<close> (after \<^verbatim>\<open>generateUPILink\<close>).

  The calendar of the server's time zone is read too: \<open>addLocalDays t n\<close> is the time
  of a \<^verbatim>\<open>Date\<close> \<open>t\<close> after \<^verbatim>\<open>setDate(getDate() + n)\<close>, that is the same local time of day
  \<open>n\<close> calendar days later. It is \<open>n\<close> times 24 hours after \<open>t\<close> unless the zone
  changes its clock in between.

  \<^verbatim>\<open>prisma.order.create\<close> is given the total as a JavaScript number;
  \<open>totalAmountColumn n\<close> is what the column \<^verbatim>\<open>totalAmount\<close> keeps of the number \<open>n\<close>
  (a floating-point column keeps it as it is, a decimal column rounds it to its
  scale). The Prisma schema is not part of the sources, so the column is a parameter.
\<close>
record env =
  faults :: "call list"
  clock :: "nat \<Rightarrow> time"
  addLocalDays :: "time \<Rightarrow> int \<Rightarrow> time"
  totalAmountColumn :: "number \<Rightarrow> number"
  dateFullYear :: nat
  dateMonth :: nat
  randomBase36 :: string
  newId :: "nat \<Rightarrow> ident"
  UPI_ID :: "string option"
  UPI_NAME :: "string option"
  cloudinaryUrl :: "string \<Rightarrow> int \<Rightarrow> string"
  qrCodeDataUrl :: "upiPaymentDetails \<Rightarrow> string"

definition fails :: "env \<Rightarrow> call \<Rightarrow> bool" where
  "fails e c = (c \<in> set (faults e))"

text \<open>The outcomes of the handlers other than success, with the status and message sent.\<close>
datatype error =
  InvalidOrderId             \<comment> \<open>400 \<^verbatim>\<open>Invalid order ID\<close>\<close>
| CartEmpty                  \<comment> \<open>400 \<^verbatim>\<open>Cart is empty\<close>\<close>
| NoValidProducts            \<comment> \<open>400 \<^verbatim>\<open>No valid products in cart\<close>\<close>
| CreateOrderFailed          \<comment> \<open>500 \<^verbatim>\<open>Failed to create order\<close>\<close>
| InvalidUtr                 \<comment> \<open>400 \<^verbatim>\<open>Invalid UTR number\<close>\<close>
| OrderNotFoundOrProcessed   \<comment> \<open>404 \<^verbatim>\<open>Order not found or already processed\<close>\<close>
| SubmitUtrFailed            \<comment> \<open>500 \<^verbatim>\<open>Failed to submit payment reference\<close>\<close>
| InvalidOrderItemId         \<comment> \<open>400 \<^verbatim>\<open>Invalid order item ID\<close>\<close>
| DownloadNotAvailable       \<comment> \<open>404 \<^verbatim>\<open>Download not available\<close>\<close>
| LimitReached               \<comment> \<open>403 \<^verbatim>\<open>Download limit reached\<close>\<close>
| LinkExpired                \<comment> \<open>403 \<^verbatim>\<open>Download link expired\<close>\<close>
| DownloadFailed             \<comment> \<open>500 \<^verbatim>\<open>Failed to generate download link\<close>\<close>
| OrderNotFound              \<comment> \<open>404 \<^verbatim>\<open>Order not found\<close>\<close>
| AlreadyVerified            \<comment> \<open>400 \<^verbatim>\<open>Order already verified\<close>\<close>
| VerifyFailed               \<comment> \<open>500 \<^verbatim>\<open>Failed to verify payment\<close>\<close>
| RejectFailed               \<comment> \<open>500 \<^verbatim>\<open>Failed to reject payment\<close>\<close>
| ProductIdRequired          \<comment> \<open>400 \<^verbatim>\<open>Product ID required\<close>\<close>
| ProductNotFound            \<comment> \<open>404 \<^verbatim>\<open>Product not found\<close>\<close>
| AlreadyInCart              \<comment> \<open>400 \<^verbatim>\<open>Product already in cart\<close>\<close>
| CartIsEmpty                \<comment> \<open>404 \<^verbatim>\<open>Cart is empty\<close>\<close>
| GetCartFailed              \<comment> \<open>500 \<^verbatim>\<open>Failed to fetch cart\<close>\<close>
| AddToCartFailed            \<comment> \<open>500 \<^verbatim>\<open>Failed to add to cart\<close>\<close>
| RemoveFromCartFailed       \<comment> \<open>500 \<^verbatim>\<open>Failed to remove from cart\<close>\<close>
| ClearCartFailed            \<comment> \<open>500 \<^verbatim>\<open>Failed to clear cart\<close>\<close>

fun httpStatus :: "error \<Rightarrow> nat" where
  "httpStatus InvalidOrderId = 400"
| "httpStatus CartEmpty = 400"
| "httpStatus NoValidProducts = 400"
| "httpStatus CreateOrderFailed = 500"
| "httpStatus InvalidUtr = 400"
| "httpStatus OrderNotFoundOrProcessed = 404"
| "httpStatus SubmitUtrFailed = 500"
| "httpStatus InvalidOrderItemId = 400"
| "httpStatus DownloadNotAvailable = 404"
| "httpStatus LimitReached = 403"
| "httpStatus LinkExpired = 403"
| "httpStatus DownloadFailed = 500"
| "httpStatus OrderNotFound = 404"
| "httpStatus AlreadyVerified = 400"
| "httpStatus VerifyFailed = 500"
| "httpStatus RejectFailed = 500"
| "httpStatus ProductIdRequired = 400"
| "httpStatus ProductNotFound = 404"
| "httpStatus AlreadyInCart = 400"
| "httpStatus CartIsEmpty = 404"
| "httpStatus GetCartFailed = 500"
| "httpStatus AddToCartFailed = 500"
| "httpStatus RemoveFromCartFailed = 500"
| "httpStatus ClearCartFailed = 500"

subsection \<open>Queries and updates on the tables\<close>

text \<open>\<^verbatim>\<open>prisma.order.update({ where: { id }, data })\<close> on the rows of the table.\<close>
definition updateOrder :: "ident \<Rightarrow> (order \<Rightarrow> order) \<Rightarrow> order list \<Rightarrow> order list" where
  "updateOrder oid f os = map (\<lambda>r. if o_id r = oid then f r else r) os"

definition updateOrderItem ::
  "ident \<Rightarrow> (orderItem \<Rightarrow> orderItem) \<Rightarrow> orderItem list \<Rightarrow> orderItem list" where
  "updateOrderItem iid f its = map (\<lambda>i. if i_id i = iid then f i else i) its"

definition updateProduct :: "ident \<Rightarrow> (product \<Rightarrow> product) \<Rightarrow> product list \<Rightarrow> product list" where
  "updateProduct pid f ps = map (\<lambda>p. if p_id p = pid then f p else p) ps"

text \<open>\<^verbatim>\<open>prisma.order.findUnique({ where: { id } })\<close>.\<close>
definition findOrder :: "ident \<Rightarrow> db \<Rightarrow> order option" where
  "findOrder oid d = find (\<lambda>r. o_id r = oid) (orders d)"

text \<open>\<^verbatim>\<open>prisma.product.findUnique({ where: { id } })\<close>, also the \<^verbatim>\<open>product\<close> relation of an item.\<close>
definition findProduct :: "ident \<Rightarrow> db \<Rightarrow> product option" where
  "findProduct pid d = find (\<lambda>p. p_id p = pid) (products d)"

definition paymentStatusOf :: "db \<Rightarrow> ident \<Rightarrow> paymentStatus option" where
  "paymentStatusOf d oid = map_option o_paymentStatus (findOrder oid d)"

section \<open>Order ledger: payment reference, verification, rejection\<close>

text \<open>
  \<^verbatim>\<open>getSignedDownloadUrl(publicId, expiresInSeconds)\<close>: the expiry is
  \<^verbatim>\<open>Math.floor(Date.now() / 1000) + expiresInSeconds\<close>.
\<close>
definition getSignedDownloadUrl :: "env \<Rightarrow> time \<Rightarrow> string \<Rightarrow> int \<Rightarrow> string" where
  "getSignedDownloadUrl e now publicId expiresInSeconds =
     cloudinaryUrl e publicId (now div 1000 + expiresInSeconds)"

text \<open>
  \<^verbatim>\<open>router.post('/:orderId/submit-utr')\<close>. The schema \<^verbatim>\<open>z.string().min(5).max(50)\<close> is
  checked before the order is looked up; the lookup asks for the id, the caller and the
  status \<^verbatim>\<open>PENDING\<close> at once.
\<close>
definition submitPaymentReference ::
  "env \<Rightarrow> ident \<Rightarrow> ident \<Rightarrow> string \<Rightarrow> db \<Rightarrow> (error + string) \<times> db" where
  "submitPaymentReference e userId orderId utrNumber d =
     (if orderId = [] then (Inl InvalidOrderId, d)
      else if \<not> (5 \<le> length utrNumber \<and> length utrNumber \<le> 50) then (Inl InvalidUtr, d)
      else if fails e OrderFindFirst then (Inl SubmitUtrFailed, d)
      else case find (\<lambda>r. o_id r = orderId \<and> o_userId r = userId \<and> o_paymentStatus r = PENDING)
                  (orders d) of
        None \<Rightarrow> (Inl OrderNotFoundOrProcessed, d)
      | Some ord \<Rightarrow>
          if fails e OrderUpdate then (Inl SubmitUtrFailed, d)
          else (Inr (o_orderNumber ord),
                d\<lparr>orders := updateOrder orderId
                  (\<lambda>r. r\<lparr>o_utrNumber := Some utrNumber, o_paymentStatus := SUBMITTED\<rparr>)
                  (orders d)\<rparr>))"

text \<open>Some order has the given id, belongs to the given user and is \<^verbatim>\<open>PENDING\<close>.\<close>
definition ownsPendingOrder :: "ident \<Rightarrow> ident \<Rightarrow> db \<Rightarrow> bool" where
  "ownsPendingOrder userId orderId d =
     (\<exists>r\<in>set (orders d). o_id r = orderId \<and> o_userId r = userId \<and> o_paymentStatus r = PENDING)"

text \<open>
  The item updates of \<^verbatim>\<open>verify\<close>, run through \<^verbatim>\<open>Promise.all\<close>: every update is started,
  the ones that succeed are applied.
\<close>
fun activateItems :: "env \<Rightarrow> time \<Rightarrow> db \<Rightarrow> nat \<Rightarrow> orderItem list \<Rightarrow> orderItem list \<Rightarrow> orderItem list" where
  "activateItems e expiresAt d k [] table = table"
| "activateItems e expiresAt d k (item # rest) table =
     activateItems e expiresAt d (Suc k) rest
       (if fails e (OrderItemUpdate (i_id item)) then table
        else updateOrderItem (i_id item)
          (\<lambda>i. i\<lparr>i_downloadUrl := Some (getSignedDownloadUrl e (clock e k)
                     (case findProduct (i_productId item) d of
                        Some p \<Rightarrow> p_fileUrl p | None \<Rightarrow> [])
                     (7 * 24 * 3600)),
                  i_expiresAt := Some expiresAt\<rparr>) table)"

text \<open>
  \<^verbatim>\<open>router.post('/orders/:id/verify')\<close>, behind \<^verbatim>\<open>authenticate\<close> and \<^verbatim>\<open>requireAdmin\<close>.
  The clock is read for \<^verbatim>\<open>paidAt\<close> (reading 0), again for \<^verbatim>\<open>expiresAt\<close> after the order
  was updated (reading 1), and once per item for the signed URL; \<^verbatim>\<open>expiresAt\<close> is the
  second reading after \<^verbatim>\<open>expiresAt.setDate(expiresAt.getDate() + 7)\<close>. The callback of
  \<^verbatim>\<open>order.items.map\<close> runs once per item before any item update is started: it throws
  when the product row of an item is missing or \<^verbatim>\<open>cloudinary.url\<close> throws, and it does not
  run at all for an order without items.
\<close>
definition verify ::
  "env \<Rightarrow> ident \<Rightarrow> string option \<Rightarrow> ident \<Rightarrow> db \<Rightarrow> (error + order) \<times> db" where
  "verify e adminId ip oid d =
     (if oid = [] then (Inl InvalidOrderId, d)
      else if fails e OrderFindUnique then (Inl VerifyFailed, d)
      else case findOrder oid d of
        None \<Rightarrow> (Inl OrderNotFound, d)
      | Some ord \<Rightarrow>
          if o_paymentStatus ord = VERIFIED then (Inl AlreadyVerified, d)
          else if fails e OrderUpdate then (Inl VerifyFailed, d)
          else
            let items = filter (\<lambda>i. i_orderId i = oid) (orderItems d);
                paid = (\<lambda>r. r\<lparr>o_paymentStatus := VERIFIED, o_orderStatus := COMPLETED,
                               o_paidAt := Some (clock e 0)\<rparr>);
                d1 = d\<lparr>orders := updateOrder oid paid (orders d)\<rparr>;
                expiresAt = addLocalDays e (clock e 1) 7
            in if (items \<noteq> [] \<and> fails e CloudinaryUrl)
                  \<or> list_ex (\<lambda>i. findProduct (i_productId i) d = None) items
               then (Inl VerifyFailed, d1)
               else
                 let d2 = d1\<lparr>orderItems := activateItems e expiresAt d 2 items (orderItems d1)\<rparr>
                 in if list_ex (\<lambda>i. fails e (OrderItemUpdate (i_id i))) items
                       \<or> fails e AdminLogCreate
                    then (Inl VerifyFailed, d2)
                    else (Inr (paid ord),
                          d2\<lparr>adminLogs := adminLogs d2 @
                            [\<lparr>a_adminId = adminId, a_action = ''verified_payment'',
                              a_entityType = ''order'', a_entityId = oid,
                              a_details = VerifiedPayment (o_orderNumber ord) (o_totalAmount ord),
                              a_ipAddress = ip\<rparr>]\<rparr>))"

text \<open>
  \<^verbatim>\<open>router.post('/orders/:id/reject')\<close>, behind \<^verbatim>\<open>authenticate\<close> and \<^verbatim>\<open>requireAdmin\<close>.
  There is no lookup and no check of the current status; \<^verbatim>\<open>prisma.order.update\<close> throws
  when no row has the id.
\<close>
definition reject ::
  "env \<Rightarrow> ident \<Rightarrow> string option \<Rightarrow> ident \<Rightarrow> string option \<Rightarrow> db \<Rightarrow> (error + order) \<times> db" where
  "reject e adminId ip oid reason d =
     (if oid = [] then (Inl InvalidOrderId, d)
      else if fails e OrderUpdate then (Inl RejectFailed, d)
      else case findOrder oid d of
        None \<Rightarrow> (Inl RejectFailed, d)
      | Some ord0 \<Rightarrow>
          let cancel = (\<lambda>r. r\<lparr>o_paymentStatus := FAILED, o_orderStatus := CANCELLED\<rparr>);
              d1 = d\<lparr>orders := updateOrder oid cancel (orders d)\<rparr>
          in if fails e AdminLogCreate then (Inl RejectFailed, d1)
             else (Inr (cancel ord0),
                   d1\<lparr>adminLogs := adminLogs d1 @
                     [\<lparr>a_adminId = adminId, a_action = ''rejected_payment'',
                       a_entityType = ''order'', a_entityId = oid,
                       a_details = RejectedPayment (o_orderNumber ord0) reason,
                       a_ipAddress = ip\<rparr>]\<rparr>))"

text \<open>A request to the ledger, and a sequence of requests run one after the other.\<close>
datatype ledgerOp =
  SubmitPaymentReference env ident ident string
| Verify env ident "string option" ident
| Reject env ident "string option" ident "string option"

fun applyOp :: "ledgerOp \<Rightarrow> db \<Rightarrow> db" where
  "applyOp (SubmitPaymentReference e userId oid utr) d = snd (submitPaymentReference e userId oid utr d)"
| "applyOp (Verify e adminId ip oid) d = snd (verify e adminId ip oid d)"
| "applyOp (Reject e adminId ip oid reason) d = snd (reject e adminId ip oid reason d)"

fun runOps :: "ledgerOp list \<Rightarrow> db \<Rightarrow> db" where
  "runOps [] d = d"
| "runOps (x # xs) d = runOps xs (applyOp x d)"

fun isVerify :: "ledgerOp \<Rightarrow> bool" where
  "isVerify (Verify _ _ _ _) = True"
| "isVerify _ = False"

fun isReject :: "ledgerOp \<Rightarrow> bool" where
  "isReject (Reject _ _ _ _ _) = True"
| "isReject _ = False"

section \<open>Entitlement and download gate\<close>

record downloadResponse =
  r_downloadUrl :: string
  r_remainingDownloads :: int
  r_productTitle :: string

text \<open>
  The lookup of \<^verbatim>\<open>router.get('/download/:orderItemId')\<close>: the item with the given id
  whose order belongs to the user and has payment status \<^verbatim>\<open>VERIFIED\<close>.
\<close>
definition findOrderItem :: "ident \<Rightarrow> ident \<Rightarrow> db \<Rightarrow> orderItem option" where
  "findOrderItem userId orderItemId d =
     find (\<lambda>i. i_id i = orderItemId \<and>
               (case findOrder (i_orderId i) d of
                  None \<Rightarrow> False
                | Some r \<Rightarrow> o_userId r = userId \<and> o_paymentStatus r = VERIFIED))
          (orderItems d)"

text \<open>
  \<^verbatim>\<open>router.get('/download/:orderItemId')\<close>. The clock is read for the expiry check only
  when \<^verbatim>\<open>expiresAt\<close> is set, and once more inside \<^verbatim>\<open>getSignedDownloadUrl\<close>. The three
  writes are the members of one \<^verbatim>\<open>Promise.all\<close>: each is started, each that succeeds is
  applied, and the handler's \<^verbatim>\<open>catch\<close> answers 500 as soon as one of them is rejected.
\<close>
definition requestDownload ::
  "env \<Rightarrow> ident \<Rightarrow> string option \<Rightarrow> string option \<Rightarrow> ident \<Rightarrow> db
     \<Rightarrow> (error + downloadResponse) \<times> db" where
  "requestDownload e userId ip userAgent orderItemId d =
     (if orderItemId = [] then (Inl InvalidOrderItemId, d)
      else if fails e OrderItemFindFirst then (Inl DownloadFailed, d)
      else case findOrderItem userId orderItemId d of
        None \<Rightarrow> (Inl DownloadNotAvailable, d)
      | Some orderItem \<Rightarrow>
          if i_downloadCount orderItem \<ge> i_downloadLimit orderItem then (Inl LimitReached, d)
          else if (case i_expiresAt orderItem of None \<Rightarrow> False | Some t \<Rightarrow> clock e 0 > t)
          then (Inl LinkExpired, d)
          else case findProduct (i_productId orderItem) d of
            None \<Rightarrow> (Inl DownloadFailed, d)
          | Some pr \<Rightarrow>
              if fails e CloudinaryUrl then (Inl DownloadFailed, d)
              else
                let downloadUrl = getSignedDownloadUrl e
                      (clock e (if i_expiresAt orderItem = None then 0 else 1))
                      (p_fileUrl pr) 3600;
                    d1 = (if fails e (OrderItemUpdate orderItemId) then d
                          else d\<lparr>orderItems := updateOrderItem orderItemId
                                 (\<lambda>i. i\<lparr>i_downloadCount := i_downloadCount i + 1\<rparr>)
                                 (orderItems d)\<rparr>);
                    d2 = (if fails e DownloadLogCreate then d1
                          else d1\<lparr>downloadLogs := downloadLogs d1 @
                                 [\<lparr>l_userId = userId, l_orderItemId = orderItemId,
                                   l_productId = i_productId orderItem,
                                   l_ipAddress = ip, l_userAgent = userAgent\<rparr>]\<rparr>);
                    d3 = (if fails e ProductUpdate then d2
                          else d2\<lparr>products := updateProduct (i_productId orderItem)
                                 (\<lambda>p. p\<lparr>p_downloadCount := p_downloadCount p + 1\<rparr>)
                                 (products d2)\<rparr>)
                in if fails e (OrderItemUpdate orderItemId) \<or> fails e DownloadLogCreate
                      \<or> fails e ProductUpdate
                   then (Inl DownloadFailed, d3)
                   else (Inr \<lparr>r_downloadUrl = downloadUrl,
                              r_remainingDownloads =
                                i_downloadLimit orderItem - i_downloadCount orderItem - 1,
                              r_productTitle = i_productTitle orderItem\<rparr>, d3))"

subsection \<open>The two parts of the download handler\<close>

text \<open>
  The handler awaits twice: \<^verbatim>\<open>await prisma.orderItem.findFirst(...)\<close> and
  \<^verbatim>\<open>await Promise.all([...])\<close>. Requests of one Node.js process interleave at the
  \<^verbatim>\<open>await\<close>s only. The first part is the lookup with the checks made on the row it
  returned and the signing of the URL; it changes nothing and hands on that row and the
  URL, or answers at once.
\<close>
definition requestDownloadLookup ::
  "env \<Rightarrow> ident \<Rightarrow> ident \<Rightarrow> db \<Rightarrow> error + orderItem \<times> string" where
  "requestDownloadLookup e userId orderItemId d =
     (if orderItemId = [] then Inl InvalidOrderItemId
      else if fails e OrderItemFindFirst then Inl DownloadFailed
      else case findOrderItem userId orderItemId d of
        None \<Rightarrow> Inl DownloadNotAvailable
      | Some orderItem \<Rightarrow>
          if i_downloadCount orderItem \<ge> i_downloadLimit orderItem then Inl LimitReached
          else if (case i_expiresAt orderItem of None \<Rightarrow> False | Some t \<Rightarrow> clock e 0 > t)
          then Inl LinkExpired
          else case findProduct (i_productId orderItem) d of
            None \<Rightarrow> Inl DownloadFailed
          | Some pr \<Rightarrow>
              if fails e CloudinaryUrl then Inl DownloadFailed
              else Inr (orderItem,
                        getSignedDownloadUrl e
                          (clock e (if i_expiresAt orderItem = None then 0 else 1))
                          (p_fileUrl pr) 3600))"

text \<open>
  The second part: the three writes of the \<^verbatim>\<open>Promise.all\<close>, made on the store as it is
  when they run, and the response, computed from the row the lookup returned.
\<close>
definition requestDownloadWrites ::
  "env \<Rightarrow> ident \<Rightarrow> string option \<Rightarrow> string option \<Rightarrow> ident \<Rightarrow> orderItem \<times> string \<Rightarrow> db
     \<Rightarrow> (error + downloadResponse) \<times> db" where
  "requestDownloadWrites e userId ip userAgent orderItemId looked d =
     (let orderItem = fst looked;
          downloadUrl = snd looked;
          d1 = (if fails e (OrderItemUpdate orderItemId) then d
                else d\<lparr>orderItems := updateOrderItem orderItemId
                       (\<lambda>i. i\<lparr>i_downloadCount := i_downloadCount i + 1\<rparr>)
                       (orderItems d)\<rparr>);
          d2 = (if fails e DownloadLogCreate then d1
                else d1\<lparr>downloadLogs := downloadLogs d1 @
                       [\<lparr>l_userId = userId, l_orderItemId = orderItemId,
                         l_productId = i_productId orderItem,
                         l_ipAddress = ip, l_userAgent = userAgent\<rparr>]\<rparr>);
          d3 = (if fails e ProductUpdate then d2
                else d2\<lparr>products := updateProduct (i_productId orderItem)
                       (\<lambda>p. p\<lparr>p_downloadCount := p_downloadCount p + 1\<rparr>)
                       (products d2)\<rparr>)
      in if fails e (OrderItemUpdate orderItemId) \<or> fails e DownloadLogCreate
            \<or> fails e ProductUpdate
         then (Inl DownloadFailed, d3)
         else (Inr \<lparr>r_downloadUrl = downloadUrl,
                    r_remainingDownloads =
                      i_downloadLimit orderItem - i_downloadCount orderItem - 1,
                    r_productTitle = i_productTitle orderItem\<rparr>, d3))"

text \<open>The rest of a request after its lookup, on the store as it is by then.\<close>
definition finishDownload ::
  "env \<Rightarrow> ident \<Rightarrow> string option \<Rightarrow> string option \<Rightarrow> ident \<Rightarrow> error + orderItem \<times> string
     \<Rightarrow> db \<Rightarrow> (error + downloadResponse) \<times> db" where
  "finishDownload e userId ip userAgent orderItemId looked d =
     (case looked of
        Inl err \<Rightarrow> (Inl err, d)
      | Inr found \<Rightarrow> requestDownloadWrites e userId ip userAgent orderItemId found d)"

text \<open>
  Two requests of one user for one item that overlap: both lookups are answered before
  the writes of either request run. The result is the two responses and the store.
\<close>
definition overlappingDownloads ::
  "env \<Rightarrow> env \<Rightarrow> ident \<Rightarrow> string option \<Rightarrow> string option \<Rightarrow> ident \<Rightarrow> db
     \<Rightarrow> (error + downloadResponse) \<times> (error + downloadResponse) \<times> db" where
  "overlappingDownloads e1 e2 userId ip userAgent orderItemId d =
     (let looked1 = requestDownloadLookup e1 userId orderItemId d;
          looked2 = requestDownloadLookup e2 userId orderItemId d;
          first = finishDownload e1 userId ip userAgent orderItemId looked1 d;
          second = finishDownload e2 userId ip userAgent orderItemId looked2 (snd first)
      in (fst first, fst second, snd second))"

section \<open>Order numbers\<close>

text \<open>\<^verbatim>\<open>String(n)\<close> for a natural number: its decimal digits.\<close>
fun showNat :: "nat \<Rightarrow> string" where
  "showNat n = (if n < 10 then [char_of (48 + n)]
                else showNat (n div 10) @ [char_of (48 + n mod 10)])"

declare showNat.simps [simp del]

text \<open>\<^verbatim>\<open>s.padStart(n, c)\<close> for a one-character pad string.\<close>
definition padStart :: "nat \<Rightarrow> char \<Rightarrow> string \<Rightarrow> string" where
  "padStart n c s = replicate (n - length s) c @ s"

text \<open>
  \<^verbatim>\<open>s.substring(a, b)\<close> for non-negative arguments: both are clamped to the length of
  the string and swapped when \<open>a > b\<close>.
\<close>
definition substring :: "string \<Rightarrow> nat \<Rightarrow> nat \<Rightarrow> string" where
  "substring s a b = take (max a b - min a b) (drop (min a b) s)"

text \<open>\<^verbatim>\<open>s.toUpperCase()\<close> on the characters \<^verbatim>\<open>toString(36)\<close> produces (ASCII).\<close>
definition toUpperCase :: "string \<Rightarrow> string" where
  "toUpperCase s =
     map (\<lambda>c. if 97 \<le> (of_char c :: nat) \<and> (of_char c :: nat) \<le> 122
               then char_of ((of_char c :: nat) - 32) else c) s"

text \<open>
  \<^verbatim>\<open>generateOrderNumber\<close>. \<^verbatim>\<open>date.getFullYear()\<close>, \<^verbatim>\<open>date.getMonth()\<close> (0 to 11) and the
  text of \<^verbatim>\<open>Math.random().toString(36)\<close> come from the environment.
\<close>
definition generateOrderNumber :: "env \<Rightarrow> string" where
  "generateOrderNumber e =
     (let year = dateFullYear e;
          month = padStart 2 (CHR ''0'') (showNat (dateMonth e + 1));
          random = toUpperCase (substring (randomBase36 e) 2 8)
      in ''ORD-'' @ showNat year @ month @ ''-'' @ random)"

text \<open>The part of an order number after \<^verbatim>\<open>ORD-YYYYMM-\<close>.\<close>
definition orderNumberSuffix :: "env \<Rightarrow> string" where
  "orderNumberSuffix e = drop (length (''ORD-'' @ showNat (dateFullYear e)
       @ padStart 2 (CHR ''0'') (showNat (dateMonth e + 1)) @ ''-'')) (generateOrderNumber e)"

section \<open>Order creation\<close>

record payment =
  pay_upiId :: string
  pay_amount :: number
  pay_qrCode :: string
  pay_note :: string

record createdOrder =
  c_order :: order
  c_items :: "orderItem list"
  c_payment :: payment

text \<open>\<^verbatim>\<open>a || b\<close> on strings that may be missing: the empty string is falsy.\<close>
definition orElse :: "string option \<Rightarrow> string option \<Rightarrow> string option" where
  "orElse a b = (case a of None \<Rightarrow> b | Some s \<Rightarrow> if s = [] then b else Some s)"

definition orDefault :: "string option \<Rightarrow> string \<Rightarrow> string" where
  "orDefault a b = (case a of None \<Rightarrow> b | Some s \<Rightarrow> if s = [] then b else s)"

text \<open>
  \<^verbatim>\<open>prisma.product.findMany({ where: { id: { in: productIds }, isActive: true } })\<close>: the
  rows of the product table that are active and whose id is in the list.
\<close>
definition findActiveProducts :: "ident list \<Rightarrow> db \<Rightarrow> product list" where
  "findActiveProducts productIds d =
     filter (\<lambda>p. p_id p \<in> set productIds \<and> p_isActive p) (products d)"

text \<open>\<^verbatim>\<open>products.reduce((sum, p) => sum + Number(p.price), 0)\<close>.\<close>
definition totalOf :: "product list \<Rightarrow> number" where
  "totalOf ps = foldl (\<lambda>sum p. jsAdd sum (Number (p_price p))) (Num 0) ps"

text \<open>
  The rows \<^verbatim>\<open>prisma.order.create\<close> inserts. Modelled from the spec: the column defaults of
  the Prisma schema, which is not part of the sources (payment status \<^verbatim>\<open>PENDING\<close>, order
  status pending, "\<^verbatim>\<open>downloadCount = 0\<close>", no UTR, no paid time, no expiry, no URL).
\<close>
definition newOrder :: "env \<Rightarrow> ident \<Rightarrow> string \<Rightarrow> string \<Rightarrow> number \<Rightarrow> order" where
  "newOrder e userId userEmail orderNumber totalAmount =
     \<lparr>o_id = newId e 0, o_orderNumber = orderNumber, o_userId = userId,
      o_userEmail = userEmail, o_totalAmount = totalAmountColumn e totalAmount,
      o_paymentStatus = PENDING, o_orderStatus = ORDER_PENDING,
      o_utrNumber = None, o_paidAt = None\<rparr>"

definition newOrderItem :: "env \<Rightarrow> nat \<times> product \<Rightarrow> orderItem" where
  "newOrderItem e kp =
     \<lparr>i_id = newId e (fst kp), i_orderId = newId e 0, i_productId = p_id (snd kp),
      i_productTitle = p_title (snd kp), i_productPrice = p_price (snd kp),
      i_downloadCount = 0, i_downloadLimit = 5,
      i_expiresAt = None, i_downloadUrl = None\<rparr>"

text \<open>
  \<^verbatim>\<open>router.post('/')\<close> of the order routes, behind \<^verbatim>\<open>authenticate\<close>. The order and its
  items are inserted by one nested \<^verbatim>\<open>create\<close>; the QR code is generated after that and
  the cart key is deleted last.
\<close>
definition createOrder ::
  "env \<Rightarrow> ident \<Rightarrow> string \<Rightarrow> redis \<times> db \<Rightarrow> (error + createdOrder) \<times> redis \<times> db" where
  "createOrder e userId userEmail s =
     (let rd = fst s; d = snd s; cartKey = ''cart:user:'' @ userId
      in if fails e RedisGet then (Inl CreateOrderFailed, rd, d)
         else case rd cartKey of
           None \<Rightarrow> (Inl CartEmpty, rd, d)
         | Some productIds \<Rightarrow>
             if productIds = [] then (Inl CartEmpty, rd, d)
             else if fails e ProductFindMany then (Inl CreateOrderFailed, rd, d)
             else
               let ps = findActiveProducts productIds d
               in if ps = [] then (Inl NoValidProducts, rd, d)
                  else
                    let totalAmount = totalOf ps;
                        orderNumber = generateOrderNumber e
                    in if fails e OrderCreate then (Inl CreateOrderFailed, rd, d)
                       else
                         let ord = newOrder e userId userEmail orderNumber totalAmount;
                             items = map (newOrderItem e) (enumerate 1 ps);
                             d1 = d\<lparr>orders := orders d @ [ord],
                                    orderItems := orderItems d @ items\<rparr>;
                             upi = orDefault (UPI_ID e) ''merchant@upi''
                         in if fails e QRCodeToDataURL then (Inl CreateOrderFailed, rd, d1)
                            else
                              let upiQrCode = qrCodeDataUrl e
                                    \<lparr>u_upiId = upi,
                                     u_name = orDefault (UPI_NAME e) ''DigitalGhar'',
                                     u_amount = totalAmount, u_orderId = orderNumber\<rparr>
                              in if fails e RedisDel then (Inl CreateOrderFailed, rd, d1)
                                 else (Inr \<lparr>c_order = ord, c_items = items,
                                            c_payment = \<lparr>pay_upiId = upi,
                                              pay_amount = totalAmount,
                                              pay_qrCode = upiQrCode,
                                              pay_note = ''Order: '' @ orderNumber\<rparr>\<rparr>,
                                       rd(cartKey := None), d1))"



section \<open>Cart store\<close>

record request =
  req_user :: "ident option"
  req_sessionHeader :: "string option"
  req_sessionCookie :: "string option"

text \<open>\<^verbatim>\<open>getCartKey\<close>: the user's key when authenticated, the session's key otherwise.\<close>
definition getCartKey :: "request \<Rightarrow> string" where
  "getCartKey req =
     (case req_user req of
        Some u \<Rightarrow> ''cart:user:'' @ u
      | None \<Rightarrow>
          ''cart:session:'' @
            orDefault (orElse (req_sessionHeader req) (req_sessionCookie req)) ''anonymous'')"

text \<open>\<^verbatim>\<open>router.get('/')\<close> of the cart routes: the active products of the cart and their total.\<close>
definition getCart :: "env \<Rightarrow> request \<Rightarrow> redis \<times> db \<Rightarrow> error + product list \<times> number" where
  "getCart e req s =
     (if fails e RedisGet then Inl GetCartFailed
      else case fst s (getCartKey req) of
        None \<Rightarrow> Inr ([], Num 0)
      | Some productIds \<Rightarrow>
          if productIds = [] then Inr ([], Num 0)
          else if fails e ProductFindMany then Inl GetCartFailed
          else let ps = findActiveProducts productIds (snd s)
               in Inr (ps, parseFloatToFixed2 (totalOf ps)))"

text \<open>\<^verbatim>\<open>router.post('/add')\<close>: answers the new number of products in the cart.\<close>
definition addToCart :: "env \<Rightarrow> request \<Rightarrow> ident \<Rightarrow> redis \<times> db \<Rightarrow> (error + nat) \<times> redis" where
  "addToCart e req productId s =
     (let rd = fst s
      in if productId = [] then (Inl ProductIdRequired, rd)
         else if fails e ProductFindUnique then (Inl AddToCartFailed, rd)
         else case findProduct productId (snd s) of
           None \<Rightarrow> (Inl ProductNotFound, rd)
         | Some pr \<Rightarrow>
             if \<not> p_isActive pr then (Inl ProductNotFound, rd)
             else if fails e RedisGet then (Inl AddToCartFailed, rd)
             else
               let productIds = (case rd (getCartKey req) of None \<Rightarrow> [] | Some ids \<Rightarrow> ids)
               in if productId \<in> set productIds then (Inl AlreadyInCart, rd)
                  else if fails e RedisSetex then (Inl AddToCartFailed, rd)
                  else (Inr (length (productIds @ [productId])),
                        rd(getCartKey req \<mapsto> productIds @ [productId])))"

text \<open>
  \<^verbatim>\<open>router.delete('/remove/:productId')\<close>: answers 404 when no cart is stored, deletes
  the key when the last product goes, stores the filtered list otherwise.
\<close>
definition removeFromCart :: "env \<Rightarrow> request \<Rightarrow> ident \<Rightarrow> redis \<Rightarrow> (error + nat) \<times> redis" where
  "removeFromCart e req productId rd =
     (if fails e RedisGet then (Inl RemoveFromCartFailed, rd)
      else case rd (getCartKey req) of
        None \<Rightarrow> (Inl CartIsEmpty, rd)
      | Some ids \<Rightarrow>
          let productIds = filter (\<lambda>i. i \<noteq> productId) ids
          in if productIds = []
             then (if fails e RedisDel then (Inl RemoveFromCartFailed, rd)
                   else (Inr (length productIds), rd(getCartKey req := None)))
             else (if fails e RedisSetex then (Inl RemoveFromCartFailed, rd)
                   else (Inr (length productIds), rd(getCartKey req \<mapsto> productIds))))"

text \<open>\<^verbatim>\<open>router.delete('/clear')\<close>.\<close>
definition clearCart :: "env \<Rightarrow> request \<Rightarrow> redis \<Rightarrow> (error + unit) \<times> redis" where
  "clearCart e req rd =
     (if fails e RedisDel then (Inl ClearCartFailed, rd)
      else (Inr (), rd(getCartKey req := None)))"

section \<open>Concrete inputs\<close>

text \<open>
  An environment in which every call succeeds, read in November 2026 in a time zone
  that never changes its clock.
\<close>
definition exampleEnv :: env where
  "exampleEnv =
     \<lparr>faults = [], clock = (\<lambda>k. 1000000),
      addLocalDays = (\<lambda>t n. t + n * (24 * 3600 * 1000)),
      totalAmountColumn = (\<lambda>n. n),
      dateFullYear = 2026, dateMonth = 10,
      randomBase36 = ''0.4fzyo82mvyr'', newId = (\<lambda>k. ''id'' @ showNat k),
      UPI_ID = None, UPI_NAME = None,
      cloudinaryUrl = (\<lambda>publicId t. ''https://res.cloudinary.com/raw/'' @ publicId),
      qrCodeDataUrl = (\<lambda>u. ''data:image/png;base64,'')\<rparr>"

text \<open>The same environment when \<^verbatim>\<open>Math.random()\<close> returns 0.5, which prints as \<^verbatim>\<open>0.i\<close>.\<close>
definition halfEnv :: env where
  "halfEnv = exampleEnv\<lparr>randomBase36 := ''0.i''\<rparr>"

text \<open>The same environment when the insertion of the download log row is rejected.\<close>
definition auditFailEnv :: env where
  "auditFailEnv = exampleEnv\<lparr>faults := [DownloadLogCreate]\<rparr>"

text \<open>The same environment when the QR code cannot be rendered.\<close>
definition qrFailEnv :: env where
  "qrFailEnv = exampleEnv\<lparr>faults := [QRCodeToDataURL]\<rparr>"

text \<open>The same environment eight days later.\<close>
definition laterEnv :: env where
  "laterEnv = exampleEnv\<lparr>clock := (\<lambda>k. 1000000 + 8 * 24 * 3600 * 1000)\<rparr>"



definition productA :: product where
  "productA = \<lparr>p_id = ''pA'', p_title = ''Product A'', p_price = 100,
               p_fileUrl = ''file-a'', p_isActive = True, p_downloadCount = 0\<rparr>"

text \<open>A product that was deactivated after it had been put into a cart.\<close>
definition productB :: product where
  "productB = \<lparr>p_id = ''pB'', p_title = ''Product B'', p_price = 50,
               p_fileUrl = ''file-b'', p_isActive = False, p_downloadCount = 0\<rparr>"

definition productC :: product where
  "productC = \<lparr>p_id = ''pC'', p_title = ''Product C'', p_price = 30,
               p_fileUrl = ''file-c'', p_isActive = True, p_downloadCount = 0\<rparr>"






definition catalogDb :: db where
  "catalogDb = \<lparr>products = [productA, productB, productC], orders = [], orderItems = [],
                downloadLogs = [], adminLogs = []\<rparr>"

definition emptyRedis :: redis where
  "emptyRedis = Map.empty"

definition cartAB :: redis where
  "cartAB = emptyRedis(''cart:user:u1'' \<mapsto> [''pA'', ''pB''])"



definition userRequest :: request where
  "userRequest = \<lparr>req_user = Some ''u1'', req_sessionHeader = None, req_sessionCookie = None\<rparr>"

definition orderOf :: "paymentStatus \<Rightarrow> order" where
  "orderOf st = \<lparr>o_id = ''o1'', o_orderNumber = ''ORD-202611-4FZYO8'', o_userId = ''u1'',
                 o_userEmail = ''u1@example.org'', o_totalAmount = Num 100,
                 o_paymentStatus = st,
                 o_orderStatus = (case st of VERIFIED \<Rightarrow> COMPLETED | FAILED \<Rightarrow> CANCELLED
                                  | _ \<Rightarrow> ORDER_PENDING),
                 o_utrNumber = None, o_paidAt = None\<rparr>"

definition itemOf :: "int \<Rightarrow> time option \<Rightarrow> orderItem" where
  "itemOf n t = \<lparr>i_id = ''i1'', i_orderId = ''o1'', i_productId = ''pA'',
                 i_productTitle = ''Product A'', i_productPrice = 100,
                 i_downloadCount = n, i_downloadLimit = 5,
                 i_expiresAt = t, i_downloadUrl = None\<rparr>"

text \<open>One order of user \<^verbatim>\<open>u1\<close> with one item, in a given state.\<close>
definition ledgerDb :: "paymentStatus \<Rightarrow> int \<Rightarrow> time option \<Rightarrow> db" where
  "ledgerDb st n t = catalogDb\<lparr>orders := [orderOf st], orderItems := [itemOf n t]\<rparr>"

section \<open>Properties\<close>

subsection \<open>Lookups after updates\<close>

lemma find_map_pres: "(\<And>x. P (g x) = P x) \<Longrightarrow> find P (map g xs) = map_option g (find P xs)"
  by (induction xs) auto

lemma map_o_id_updateOrder:
  "(\<And>r. o_id (f r) = o_id r) \<Longrightarrow> map o_id (updateOrder oid f os) = map o_id os"
  by (induction os) (auto simp: updateOrder_def)

lemma findOrder_updateOrder:
  "(\<And>r. o_id (f r) = o_id r) \<Longrightarrow>
   findOrder oid (d\<lparr>orders := updateOrder oid' f (orders d)\<rparr>)
     = map_option (\<lambda>r. if o_id r = oid' then f r else r) (findOrder oid d)"
  unfolding findOrder_def updateOrder_def
  by (simp add: find_map_pres)

lemma find_distinct_key:
  "distinct (map k xs) \<Longrightarrow> x \<in> set xs \<Longrightarrow> find (\<lambda>r. k r = k x) xs = Some x"
  by (induction xs) (auto simp: image_iff)

lemma find_Some_set: "find P xs = Some x \<Longrightarrow> x \<in> set xs \<and> P x"
  by (induction xs) (auto split: if_splits)

lemma orders_ids_submit:
  "map o_id (orders (snd (submitPaymentReference e u oid utr d))) = map o_id (orders d)"
  by (simp add: submitPaymentReference_def map_o_id_updateOrder split: option.splits)

lemma orders_ids_verify:
  "map o_id (orders (snd (verify e a ip oid d))) = map o_id (orders d)"
  by (simp add: verify_def Let_def map_o_id_updateOrder split: option.splits)

lemma orders_ids_reject:
  "map o_id (orders (snd (reject e a ip oid reason d))) = map o_id (orders d)"
  by (simp add: reject_def Let_def map_o_id_updateOrder split: option.splits)

lemma orders_ids_applyOp: "map o_id (orders (applyOp x d)) = map o_id (orders d)"
  by (cases x) (simp_all add: orders_ids_submit orders_ids_verify orders_ids_reject)

lemma findOrder_id: "findOrder oid d = Some r \<Longrightarrow> o_id r = oid"
  unfolding findOrder_def using find_Some_set by fastforce

lemma paymentStatusOf_updateOrder:
  assumes "\<And>r. o_id (f r) = o_id r"
  shows "paymentStatusOf (d\<lparr>orders := updateOrder oid' f (orders d)\<rparr>) oid
     = (if oid = oid' then map_option (\<lambda>r. o_paymentStatus (f r)) (findOrder oid d)
        else paymentStatusOf d oid)"
proof (cases "findOrder oid d")
  case None
  then show ?thesis by (auto simp: paymentStatusOf_def findOrder_updateOrder[OF assms])
next
  case (Some r)
  then show ?thesis using findOrder_id[OF Some]
    by (auto simp: paymentStatusOf_def findOrder_updateOrder[OF assms])
qed

lemma paymentStatusOf_other_tables [simp]:
  "paymentStatusOf (d\<lparr>orderItems := its\<rparr>) oid = paymentStatusOf d oid"
  "paymentStatusOf (d\<lparr>adminLogs := ls\<rparr>) oid = paymentStatusOf d oid"
  by (simp_all add: paymentStatusOf_def findOrder_def)

lemma status_submit:
  assumes "distinct (map o_id (orders d))" "paymentStatusOf d oid = Some s" "s \<noteq> PENDING"
  shows "paymentStatusOf (snd (submitPaymentReference e u oid' utr d)) oid = Some s"
proof (cases "find (\<lambda>r. o_id r = oid' \<and> o_userId r = u \<and> o_paymentStatus r = PENDING) (orders d)")
  case None
  then show ?thesis using assms by (simp add: submitPaymentReference_def)
next
  case (Some r)
  then have r: "r \<in> set (orders d)" "o_id r = oid'" "o_paymentStatus r = PENDING"
    using find_Some_set[OF Some] by auto
  have "findOrder oid' d = Some r"
    using find_distinct_key[OF assms(1) r(1)] r(2) by (simp add: findOrder_def)
  with assms r have "oid \<noteq> oid'" by (auto simp: paymentStatusOf_def)
  then show ?thesis using assms Some
    by (simp add: submitPaymentReference_def paymentStatusOf_updateOrder)
qed

lemma status_verify:
  assumes "paymentStatusOf d oid = Some VERIFIED"
  shows "paymentStatusOf (snd (verify e a ip oid' d)) oid = Some VERIFIED"
proof (cases "oid = oid'")
  case True
  then show ?thesis using assms
    by (auto simp: verify_def paymentStatusOf_def split: option.splits)
next
  case False
  then show ?thesis using assms
    by (simp add: verify_def Let_def paymentStatusOf_updateOrder split: option.splits)
qed

lemma status_reject:
  assumes "paymentStatusOf d oid = Some FAILED"
  shows "paymentStatusOf (snd (reject e a ip oid' reason d)) oid = Some FAILED"
proof (cases "oid = oid'")
  case True
  from assms obtain r where "findOrder oid d = Some r" "o_paymentStatus r = FAILED"
    by (auto simp: paymentStatusOf_def)
  with True assms show ?thesis
    by (auto simp: reject_def Let_def paymentStatusOf_updateOrder)
next
  case False
  then show ?thesis using assms
    by (simp add: reject_def Let_def paymentStatusOf_updateOrder split: option.splits)
qed

lemma runOps_verified:
  "distinct (map o_id (orders d)) \<Longrightarrow> \<forall>x\<in>set xs. \<not> isReject x \<Longrightarrow>
   paymentStatusOf d oid = Some VERIFIED \<Longrightarrow> paymentStatusOf (runOps xs d) oid = Some VERIFIED"
proof (induction xs arbitrary: d)
  case Nil
  then show ?case by simp
next
  case (Cons x xs)
  have "paymentStatusOf (applyOp x d) oid = Some VERIFIED"
    using Cons.prems by (cases x) (simp_all add: status_submit status_verify)
  moreover have "distinct (map o_id (orders (applyOp x d)))"
    using Cons.prems(1) by (simp add: orders_ids_applyOp)
  ultimately show ?case using Cons.IH Cons.prems(2) by simp
qed

lemma runOps_failed:
  "distinct (map o_id (orders d)) \<Longrightarrow> \<forall>x\<in>set xs. \<not> isVerify x \<Longrightarrow>
   paymentStatusOf d oid = Some FAILED \<Longrightarrow> paymentStatusOf (runOps xs d) oid = Some FAILED"
proof (induction xs arbitrary: d)
  case Nil
  then show ?case by simp
next
  case (Cons x xs)
  have "paymentStatusOf (applyOp x d) oid = Some FAILED"
    using Cons.prems by (cases x) (simp_all add: status_submit status_reject)
  moreover have "distinct (map o_id (orders (applyOp x d)))"
    using Cons.prems(1) by (simp add: orders_ids_applyOp)
  ultimately show ?case using Cons.IH Cons.prems(2) by simp
qed

lemma find_None_set: "find P xs = None \<longleftrightarrow> \<not> (\<exists>x\<in>set xs. P x)"
  by (simp add: find_None_iff Bex_def)

lemma in_updateOrder:
  assumes "r \<in> set (updateOrder oid f os)" "o_id r = oid" "\<And>x. o_id (f x) = o_id x"
  shows "\<exists>x\<in>set os. r = f x"
proof -
  from assms(1) obtain x where x: "x \<in> set os" "r = (if o_id x = oid then f x else x)"
    unfolding updateOrder_def by auto
  with assms(2,3) show ?thesis by (cases "o_id x = oid") auto
qed

lemma status_verify_failed:
  assumes "oid \<noteq> []" "\<not> fails e OrderFindUnique" "\<not> fails e OrderUpdate"
    "paymentStatusOf d oid = Some FAILED"
  shows "paymentStatusOf (snd (verify e a ip oid d)) oid = Some VERIFIED"
proof -
  from assms(4) obtain r where "findOrder oid d = Some r" "o_paymentStatus r = FAILED"
    by (auto simp: paymentStatusOf_def)
  with assms show ?thesis
    by (simp add: verify_def Let_def paymentStatusOf_updateOrder)
qed

lemma status_reject_any:
  assumes "oid \<noteq> []" "\<not> fails e OrderUpdate" "paymentStatusOf d oid = Some s"
  shows "paymentStatusOf (snd (reject e a ip oid reason d)) oid = Some FAILED"
proof -
  from assms(3) obtain r where "findOrder oid d = Some r"
    by (auto simp: paymentStatusOf_def)
  with assms show ?thesis
    by (simp add: reject_def Let_def paymentStatusOf_updateOrder)
qed

lemma distinct_ledgerDb: "distinct (map o_id (orders (ledgerDb st n t)))"
  by (simp add: ledgerDb_def)

subsection \<open>Terminal states of the payment status\<close>

text \<open>
  Claim C1, as stated: no sequence of \<^verbatim>\<open>submitPaymentReference\<close>, \<^verbatim>\<open>verify\<close> and \<^verbatim>\<open>reject\<close>
  requests moves the payment status of an order out of \<^verbatim>\<open>VERIFIED\<close> or out of \<^verbatim>\<open>FAILED\<close>.
  This fails: \<^verbatim>\<open>verify\<close> only refuses an order that is already \<^verbatim>\<open>VERIFIED\<close>, so it
  moves a \<^verbatim>\<open>FAILED\<close> order to \<^verbatim>\<open>VERIFIED\<close>, and \<^verbatim>\<open>reject\<close> checks nothing, so it moves
  a \<^verbatim>\<open>VERIFIED\<close> order to \<^verbatim>\<open>FAILED\<close>.
\<close>
theorem payment_status_terminal_counterexample:
  "paymentStatusOf (ledgerDb FAILED 0 None) ''o1'' = Some FAILED
   \<and> paymentStatusOf (runOps [Verify exampleEnv ''admin'' None ''o1''] (ledgerDb FAILED 0 None)) ''o1''
       = Some VERIFIED
   \<and> paymentStatusOf (ledgerDb VERIFIED 0 None) ''o1'' = Some VERIFIED
   \<and> paymentStatusOf (runOps [Reject exampleEnv ''admin'' None ''o1'' None] (ledgerDb VERIFIED 0 None)) ''o1''
       = Some FAILED"
  by (simp add: ledgerDb_def catalogDb_def orderOf_def itemOf_def paymentStatusOf_def findOrder_def
      verify_def reject_def fails_def exampleEnv_def Let_def updateOrder_def findProduct_def productA_def)

text \<open>
  Claim C1, amended: on a table with unique order ids, no sequence of
  \<^verbatim>\<open>submitPaymentReference\<close> and \<^verbatim>\<open>verify\<close> requests moves the payment status of an order
  out of \<^verbatim>\<open>VERIFIED\<close>, and no sequence of \<^verbatim>\<open>submitPaymentReference\<close> and \<^verbatim>\<open>reject\<close>
  requests moves it out of \<^verbatim>\<open>FAILED\<close>; \<^verbatim>\<open>verify\<close> on a \<^verbatim>\<open>FAILED\<close> order sets it
  \<^verbatim>\<open>VERIFIED\<close> and \<^verbatim>\<open>reject\<close> on a \<^verbatim>\<open>VERIFIED\<close> order sets it \<^verbatim>\<open>FAILED\<close> (when the
  database calls succeed).
\<close>
theorem payment_status_terminal_amended:
  assumes "distinct (map o_id (orders d))"
  shows "((\<forall>x\<in>set xs. \<not> isReject x) \<longrightarrow> paymentStatusOf d oid = Some VERIFIED
            \<longrightarrow> paymentStatusOf (runOps xs d) oid = Some VERIFIED)
       \<and> ((\<forall>x\<in>set xs. \<not> isVerify x) \<longrightarrow> paymentStatusOf d oid = Some FAILED
            \<longrightarrow> paymentStatusOf (runOps xs d) oid = Some FAILED)
       \<and> (oid \<noteq> [] \<longrightarrow> \<not> fails e OrderFindUnique \<longrightarrow> \<not> fails e OrderUpdate
            \<longrightarrow> paymentStatusOf d oid = Some FAILED
            \<longrightarrow> paymentStatusOf (snd (verify e a ip oid d)) oid = Some VERIFIED)
       \<and> (oid \<noteq> [] \<longrightarrow> \<not> fails e OrderUpdate
            \<longrightarrow> paymentStatusOf d oid = Some VERIFIED
            \<longrightarrow> paymentStatusOf (snd (reject e a ip oid reason d)) oid = Some FAILED)"
  using assms runOps_verified runOps_failed status_verify_failed status_reject_any
  by blast

theorem payment_status_terminal_amended_witness:
  "distinct (map o_id (orders (ledgerDb VERIFIED 0 None)))
   \<and> \<not> list_ex isReject [SubmitPaymentReference exampleEnv ''u1'' ''o1'' ''UTR123456'',
                            Verify exampleEnv ''admin'' None ''o1'']
   \<and> paymentStatusOf (ledgerDb VERIFIED 0 None) ''o1'' = Some VERIFIED
   \<and> paymentStatusOf (runOps [SubmitPaymentReference exampleEnv ''u1'' ''o1'' ''UTR123456'',
                               Verify exampleEnv ''admin'' None ''o1'']
                       (ledgerDb VERIFIED 0 None)) ''o1'' = Some VERIFIED
   \<and> ''o1'' \<noteq> [] \<and> \<not> fails exampleEnv OrderUpdate
   \<and> paymentStatusOf (snd (reject exampleEnv ''admin'' None ''o1'' None (ledgerDb VERIFIED 0 None))) ''o1''
       = Some FAILED
   \<and> distinct (map o_id (orders (ledgerDb FAILED 0 None)))
   \<and> \<not> list_ex isVerify [SubmitPaymentReference exampleEnv ''u1'' ''o1'' ''UTR123456'',
                            Reject exampleEnv ''admin'' None ''o1'' None]
   \<and> paymentStatusOf (ledgerDb FAILED 0 None) ''o1'' = Some FAILED
   \<and> paymentStatusOf (runOps [SubmitPaymentReference exampleEnv ''u1'' ''o1'' ''UTR123456'',
                               Reject exampleEnv ''admin'' None ''o1'' None]
                       (ledgerDb FAILED 0 None)) ''o1'' = Some FAILED
   \<and> \<not> fails exampleEnv OrderFindUnique
   \<and> paymentStatusOf (snd (verify exampleEnv ''admin'' None ''o1'' (ledgerDb FAILED 0 None))) ''o1''
       = Some VERIFIED"
proof -
  have v: "paymentStatusOf (ledgerDb VERIFIED 0 None) ''o1'' = Some VERIFIED"
    by (simp add: ledgerDb_def catalogDb_def orderOf_def paymentStatusOf_def findOrder_def)
  have f: "paymentStatusOf (ledgerDb FAILED 0 None) ''o1'' = Some FAILED"
    by (simp add: ledgerDb_def catalogDb_def orderOf_def paymentStatusOf_def findOrder_def)
  have nf: "\<not> fails exampleEnv OrderUpdate" "\<not> fails exampleEnv OrderFindUnique"
    by (simp_all add: fails_def exampleEnv_def)
  show ?thesis
    using v f nf
      payment_status_terminal_amended [OF distinct_ledgerDb [of VERIFIED 0 None],
        of "[SubmitPaymentReference exampleEnv ''u1'' ''o1'' ''UTR123456'',
             Verify exampleEnv ''admin'' None ''o1'']" "''o1''" exampleEnv "''admin''" None None]
      payment_status_terminal_amended [OF distinct_ledgerDb [of FAILED 0 None],
        of "[SubmitPaymentReference exampleEnv ''u1'' ''o1'' ''UTR123456'',
             Reject exampleEnv ''admin'' None ''o1'' None]" "''o1''" exampleEnv "''admin''" None None]
    by (simp add: distinct_ledgerDb)
qed

subsection \<open>Submitting a payment reference\<close>

text \<open>
  Claim C5: for a UTR of 5 to 50 characters, \<^verbatim>\<open>submitPaymentReference\<close> succeeds if and
  only if an order with the given id belongs to the caller and is \<^verbatim>\<open>PENDING\<close>; on success
  it stores the UTR and sets the status \<^verbatim>\<open>SUBMITTED\<close>; in every other case it answers
  the one outcome 404 \<^verbatim>\<open>Order not found or already processed\<close> and changes nothing, so
  a second submission for the same order gets that answer. The length is the only check
  on the UTR: any other length is answered 400 \<^verbatim>\<open>Invalid UTR number\<close>. (The order id is
  a route parameter, hence not empty, and the database calls are taken to succeed.)
\<close>
theorem submitPaymentReference_pending_only:
  assumes "orderId \<noteq> []" "\<not> fails e OrderFindFirst" "\<not> fails e OrderUpdate"
    "\<not> fails e' OrderFindFirst"
  shows "(5 \<le> length utr \<and> length utr \<le> 50 \<longrightarrow>
            ((\<exists>n. fst (submitPaymentReference e userId orderId utr d) = Inr n)
               \<longleftrightarrow> ownsPendingOrder userId orderId d)
          \<and> (ownsPendingOrder userId orderId d
               \<longrightarrow> snd (submitPaymentReference e userId orderId utr d)
                     = d\<lparr>orders := updateOrder orderId
                          (\<lambda>r. r\<lparr>o_utrNumber := Some utr, o_paymentStatus := SUBMITTED\<rparr>)
                          (orders d)\<rparr>
                 \<and> (\<forall>r\<in>set (orders (snd (submitPaymentReference e userId orderId utr d))).
                       o_id r = orderId
                       \<longrightarrow> o_utrNumber r = Some utr \<and> o_paymentStatus r = SUBMITTED)
                 \<and> submitPaymentReference e' userId orderId utr
                       (snd (submitPaymentReference e userId orderId utr d))
                     = (Inl OrderNotFoundOrProcessed,
                        snd (submitPaymentReference e userId orderId utr d)))
          \<and> (\<not> ownsPendingOrder userId orderId d
               \<longrightarrow> submitPaymentReference e userId orderId utr d
                     = (Inl OrderNotFoundOrProcessed, d)))
       \<and> (\<not> (5 \<le> length utr \<and> length utr \<le> 50) \<longrightarrow>
            submitPaymentReference e userId orderId utr d = (Inl InvalidUtr, d))"
proof -
  let ?P = "\<lambda>r. o_id r = orderId \<and> o_userId r = userId \<and> o_paymentStatus r = PENDING"
  let ?f = "\<lambda>r. r\<lparr>o_utrNumber := Some utr, o_paymentStatus := SUBMITTED\<rparr>"
  let ?d' = "d\<lparr>orders := updateOrder orderId ?f (orders d)\<rparr>"
  let ?res = "submitPaymentReference e userId orderId utr d"
  have after: "\<forall>r\<in>set (updateOrder orderId ?f (orders d)). o_id r = orderId
                 \<longrightarrow> o_utrNumber r = Some utr \<and> o_paymentStatus r = SUBMITTED"
  proof (intro ballI impI)
    fix r assume "r \<in> set (updateOrder orderId ?f (orders d))" "o_id r = orderId"
    then obtain x where "r = ?f x"
      using in_updateOrder [of r orderId ?f "orders d"] by auto
    then show "o_utrNumber r = Some utr \<and> o_paymentStatus r = SUBMITTED" by simp
  qed
  have gone: "find ?P (updateOrder orderId ?f (orders d)) = None"
    unfolding find_None_set using after by fastforce
  have owns: "ownsPendingOrder userId orderId d \<longleftrightarrow> find ?P (orders d) \<noteq> None"
    unfolding ownsPendingOrder_def find_None_set by blast
  show ?thesis
  proof (cases "5 \<le> length utr \<and> length utr \<le> 50")
    case False
    then have "?res = (Inl InvalidUtr, d)"
      using assms(1) by (simp add: submitPaymentReference_def)
    with False show ?thesis by blast
  next
    case valid: True
    have again: "submitPaymentReference e' userId orderId utr ?d' = (Inl OrderNotFoundOrProcessed, ?d')"
      using assms(1,4) valid gone by (simp add: submitPaymentReference_def)
    show ?thesis
    proof (cases "find ?P (orders d)")
      case None
      then have res: "?res = (Inl OrderNotFoundOrProcessed, d)"
        using assms(1,2) valid by (simp add: submitPaymentReference_def)
      have "\<not> ownsPendingOrder userId orderId d"
        using None owns by simp
      with valid show ?thesis unfolding res by simp
    next
      case (Some r)
      then have res: "?res = (Inr (o_orderNumber r), ?d')"
        using assms(1,2,3) valid by (simp add: submitPaymentReference_def)
      have ex: "ownsPendingOrder userId orderId d"
        using Some owns by simp
      have "fst ?res = Inr (o_orderNumber r)" "snd ?res = ?d'" "orders (snd ?res) = updateOrder orderId ?f (orders d)"
        unfolding res by simp_all
      with valid ex after again show ?thesis by simp
    qed
  qed
qed

theorem submitPaymentReference_pending_only_witness:
  "''o1'' \<noteq> [] \<and> \<not> fails exampleEnv OrderFindFirst \<and> \<not> fails exampleEnv OrderUpdate
   \<and> 5 \<le> length ''UTR123456'' \<and> length ''UTR123456'' \<le> 50
   \<and> ownsPendingOrder ''u1'' ''o1'' (ledgerDb PENDING 0 None)
   \<and> (\<exists>n. fst (submitPaymentReference exampleEnv ''u1'' ''o1'' ''UTR123456'' (ledgerDb PENDING 0 None)) = Inr n)
   \<and> submitPaymentReference exampleEnv ''u1'' ''o1'' ''UTR123456''
        (snd (submitPaymentReference exampleEnv ''u1'' ''o1'' ''UTR123456'' (ledgerDb PENDING 0 None)))
      = (Inl OrderNotFoundOrProcessed,
         snd (submitPaymentReference exampleEnv ''u1'' ''o1'' ''UTR123456'' (ledgerDb PENDING 0 None)))
   \<and> \<not> ownsPendingOrder ''u2'' ''o1'' (ledgerDb PENDING 0 None)
   \<and> submitPaymentReference exampleEnv ''u2'' ''o1'' ''UTR123456'' (ledgerDb PENDING 0 None)
      = (Inl OrderNotFoundOrProcessed, ledgerDb PENDING 0 None)
   \<and> submitPaymentReference exampleEnv ''u1'' ''o1'' ''UTR'' (ledgerDb PENDING 0 None)
      = (Inl InvalidUtr, ledgerDb PENDING 0 None)"
proof -
  have h: "''o1'' \<noteq> []" "\<not> fails exampleEnv OrderFindFirst" "\<not> fails exampleEnv OrderUpdate"
    by (simp_all add: fails_def exampleEnv_def)
  have len: "5 \<le> length ''UTR123456'' \<and> length ''UTR123456'' \<le> 50"
    "\<not> (5 \<le> length ''UTR'' \<and> length ''UTR'' \<le> 50)" by simp_all
  have own: "ownsPendingOrder ''u1'' ''o1'' (ledgerDb PENDING 0 None)"
    "\<not> ownsPendingOrder ''u2'' ''o1'' (ledgerDb PENDING 0 None)"
    by (simp_all add: ownsPendingOrder_def ledgerDb_def orderOf_def)
  note t1 = submitPaymentReference_pending_only [OF h h(2), of "''UTR123456''" "''u1''" "ledgerDb PENDING 0 None"]
  note t2 = submitPaymentReference_pending_only [OF h h(2), of "''UTR123456''" "''u2''" "ledgerDb PENDING 0 None"]
  note t3 = submitPaymentReference_pending_only [OF h h(2), of "''UTR''" "''u1''" "ledgerDb PENDING 0 None"]
  from t1 len(1) own(1) have a: "(\<exists>n. fst (submitPaymentReference exampleEnv ''u1'' ''o1'' ''UTR123456'' (ledgerDb PENDING 0 None)) = Inr n)"
    "submitPaymentReference exampleEnv ''u1'' ''o1'' ''UTR123456''
        (snd (submitPaymentReference exampleEnv ''u1'' ''o1'' ''UTR123456'' (ledgerDb PENDING 0 None)))
      = (Inl OrderNotFoundOrProcessed,
         snd (submitPaymentReference exampleEnv ''u1'' ''o1'' ''UTR123456'' (ledgerDb PENDING 0 None)))"
    by blast+
  from t2 len(1) own(2) have b: "submitPaymentReference exampleEnv ''u2'' ''o1'' ''UTR123456'' (ledgerDb PENDING 0 None)
      = (Inl OrderNotFoundOrProcessed, ledgerDb PENDING 0 None)" by blast
  from t3 len(2) have c: "submitPaymentReference exampleEnv ''u1'' ''o1'' ''UTR'' (ledgerDb PENDING 0 None)
      = (Inl InvalidUtr, ledgerDb PENDING 0 None)" by blast
  from h len(1) own a b c show ?thesis by blast
qed

subsection \<open>The download gate\<close>

lemma findOrderItem_other_tables [simp]:
  "findOrderItem u iid (d\<lparr>downloadLogs := ls\<rparr>) = findOrderItem u iid d"
  "findOrderItem u iid (d\<lparr>products := ps\<rparr>) = findOrderItem u iid d"
  by (simp_all add: findOrderItem_def findOrder_def)

lemma findOrderItem_id: "findOrderItem u iid d = Some item \<Longrightarrow> i_id item = iid"
  unfolding findOrderItem_def using find_Some_set by fastforce

lemma findOrderItem_updateOrderItem:
  assumes "\<And>i. i_id (f i) = i_id i" "\<And>i. i_orderId (f i) = i_orderId i"
  shows "findOrderItem u iid (d\<lparr>orderItems := updateOrderItem iid f (orderItems d)\<rparr>)
           = map_option f (findOrderItem u iid d)"
proof -
  let ?P = "\<lambda>i. i_id i = iid \<and>
               (case findOrder (i_orderId i) d of
                  None \<Rightarrow> False
                | Some r \<Rightarrow> o_userId r = u \<and> o_paymentStatus r = VERIFIED)"
  let ?g = "\<lambda>i. if i_id i = iid then f i else i"
  have P: "\<And>x. ?P (?g x) = ?P x" using assms by simp
  have "findOrderItem u iid (d\<lparr>orderItems := updateOrderItem iid f (orderItems d)\<rparr>)
          = find ?P (map ?g (orderItems d))"
    by (simp add: findOrderItem_def updateOrderItem_def findOrder_def)
  also have "\<dots> = map_option ?g (find ?P (orderItems d))"
    using find_map_pres [of ?P ?g, OF P] .
  also have "\<dots> = map_option f (findOrderItem u iid d)"
  proof (cases "findOrderItem u iid d")
    case None
    then show ?thesis by (simp add: findOrderItem_def)
  next
    case (Some item)
    then show ?thesis using findOrderItem_id [OF Some] by (simp add: findOrderItem_def)
  qed
  finally show ?thesis .
qed

text \<open>The outcome of a request that passes every check, whatever writes fail.\<close>
lemma requestDownload_passed:
  assumes "orderItemId \<noteq> []" "\<not> fails e OrderItemFindFirst"
    "findOrderItem userId orderItemId d = Some item"
    "i_downloadCount item < i_downloadLimit item"
    "case i_expiresAt item of None \<Rightarrow> True | Some t \<Rightarrow> \<not> clock e 0 > t"
    "findProduct (i_productId item) d = Some pr" "\<not> fails e CloudinaryUrl"
  shows "fst (requestDownload e userId ip ua orderItemId d) =
           (if fails e (OrderItemUpdate orderItemId) \<or> fails e DownloadLogCreate \<or> fails e ProductUpdate
            then Inl DownloadFailed
            else Inr \<lparr>r_downloadUrl = getSignedDownloadUrl e
                        (clock e (if i_expiresAt item = None then 0 else 1)) (p_fileUrl pr) 3600,
                      r_remainingDownloads = i_downloadLimit item - i_downloadCount item - 1,
                      r_productTitle = i_productTitle item\<rparr>)"
    and "orderItems (snd (requestDownload e userId ip ua orderItemId d)) =
           (if fails e (OrderItemUpdate orderItemId) then orderItems d
            else updateOrderItem orderItemId (\<lambda>i. i\<lparr>i_downloadCount := i_downloadCount i + 1\<rparr>) (orderItems d))"
    and "downloadLogs (snd (requestDownload e userId ip ua orderItemId d)) =
           (if fails e DownloadLogCreate then downloadLogs d
            else downloadLogs d @ [\<lparr>l_userId = userId, l_orderItemId = orderItemId,
                   l_productId = i_productId item, l_ipAddress = ip, l_userAgent = ua\<rparr>])"
    and "orders (snd (requestDownload e userId ip ua orderItemId d)) = orders d"
proof -
  have exp: "\<not> (case i_expiresAt item of None \<Rightarrow> False | Some t \<Rightarrow> clock e 0 > t)"
    using assms(5) by (cases "i_expiresAt item") simp_all
  show "fst (requestDownload e userId ip ua orderItemId d) =
           (if fails e (OrderItemUpdate orderItemId) \<or> fails e DownloadLogCreate \<or> fails e ProductUpdate
            then Inl DownloadFailed
            else Inr \<lparr>r_downloadUrl = getSignedDownloadUrl e
                        (clock e (if i_expiresAt item = None then 0 else 1)) (p_fileUrl pr) 3600,
                      r_remainingDownloads = i_downloadLimit item - i_downloadCount item - 1,
                      r_productTitle = i_productTitle item\<rparr>)"
    using assms(1-4,6,7) exp by (simp add: requestDownload_def Let_def)
  show "orderItems (snd (requestDownload e userId ip ua orderItemId d)) =
           (if fails e (OrderItemUpdate orderItemId) then orderItems d
            else updateOrderItem orderItemId (\<lambda>i. i\<lparr>i_downloadCount := i_downloadCount i + 1\<rparr>) (orderItems d))"
    using assms(1-4,6,7) exp by (simp add: requestDownload_def Let_def)
  show "downloadLogs (snd (requestDownload e userId ip ua orderItemId d)) =
           (if fails e DownloadLogCreate then downloadLogs d
            else downloadLogs d @ [\<lparr>l_userId = userId, l_orderItemId = orderItemId,
                   l_productId = i_productId item, l_ipAddress = ip, l_userAgent = ua\<rparr>])"
    using assms(1-4,6,7) exp by (simp add: requestDownload_def Let_def)
  show "orders (snd (requestDownload e userId ip ua orderItemId d)) = orders d"
    using assms(1-4,6,7) exp by (simp add: requestDownload_def Let_def)
qed

text \<open>A request changes the item table by the increment or not at all.\<close>
lemma requestDownload_orderItems:
  "orderItems (snd (requestDownload e userId ip ua orderItemId d)) = orderItems d
   \<or> (\<exists>item. findOrderItem userId orderItemId d = Some item
        \<and> i_downloadCount item < i_downloadLimit item
        \<and> orderItems (snd (requestDownload e userId ip ua orderItemId d))
            = updateOrderItem orderItemId (\<lambda>i. i\<lparr>i_downloadCount := i_downloadCount i + 1\<rparr>) (orderItems d))"
  by (simp add: requestDownload_def Let_def split: option.splits)

lemma limit_preserved:
  assumes "distinct (map i_id (orderItems d))"
    "\<forall>i\<in>set (orderItems d). i_downloadCount i \<le> i_downloadLimit i"
  shows "\<forall>i\<in>set (orderItems (snd (requestDownload e userId ip ua orderItemId d))).
           i_downloadCount i \<le> i_downloadLimit i"
proof -
  let ?d' = "snd (requestDownload e userId ip ua orderItemId d)"
  let ?f = "\<lambda>i. i\<lparr>i_downloadCount := i_downloadCount i + 1\<rparr>"
  from requestDownload_orderItems [of e userId ip ua orderItemId d]
  show ?thesis
  proof
    assume "orderItems ?d' = orderItems d"
    with assms(2) show ?thesis by simp
  next
    assume "\<exists>item. findOrderItem userId orderItemId d = Some item
        \<and> i_downloadCount item < i_downloadLimit item
        \<and> orderItems ?d' = updateOrderItem orderItemId ?f (orderItems d)"
    then obtain item where item: "findOrderItem userId orderItemId d = Some item"
      "i_downloadCount item < i_downloadLimit item"
      "orderItems ?d' = updateOrderItem orderItemId ?f (orderItems d)" by blast
    have mem: "item \<in> set (orderItems d)" and id: "i_id item = orderItemId"
      using item(1) find_Some_set [of _ "orderItems d" item] findOrderItem_id [OF item(1)]
      by (simp_all add: findOrderItem_def)
    show ?thesis
    proof
      fix r assume "r \<in> set (orderItems ?d')"
      then obtain x where x: "x \<in> set (orderItems d)"
        "r = (if i_id x = orderItemId then ?f x else x)"
        unfolding item(3) updateOrderItem_def by auto
      show "i_downloadCount r \<le> i_downloadLimit r"
      proof (cases "i_id x = orderItemId")
        case True
        have "find (\<lambda>r. i_id r = i_id item) (orderItems d) = Some item"
          using find_distinct_key [OF assms(1) mem] .
        moreover have "find (\<lambda>r. i_id r = i_id x) (orderItems d) = Some x"
          using find_distinct_key [OF assms(1) x(1)] .
        ultimately have "x = item" using True id by simp
        with True x(2) item(2) show ?thesis by simp
      next
        case False
        with x assms(2) show ?thesis by simp
      qed
    qed
  qed
qed

text \<open>
  A request that no other request overlaps: for an item whose order belongs to the
  requesting user and is \<^verbatim>\<open>VERIFIED\<close> and whose expiry has not passed, it is answered
  \<^verbatim>\<open>LimitReached\<close> exactly when \<^verbatim>\<open>downloadCount >= downloadLimit\<close>, leaving the store
  unchanged; otherwise (when the product row exists and the collaborator calls succeed)
  it increments the count of the item by 1 and returns as \<^verbatim>\<open>remainingDownloads\<close> the
  limit minus the count after the increment. On a table with unique item ids such a
  request does not take a count above its limit, whichever calls fail.
\<close>
lemma requestDownload_sequential:
  assumes "orderItemId \<noteq> []"
    and "findOrderItem userId orderItemId d = Some item"
    and "case i_expiresAt item of None \<Rightarrow> True | Some t \<Rightarrow> \<not> clock e 0 > t"
  shows "(\<not> fails e OrderItemFindFirst \<longrightarrow>
            (fst (requestDownload e userId ip ua orderItemId d) = Inl LimitReached
               \<longleftrightarrow> i_downloadCount item \<ge> i_downloadLimit item)
          \<and> (i_downloadCount item \<ge> i_downloadLimit item
               \<longrightarrow> requestDownload e userId ip ua orderItemId d = (Inl LimitReached, d)))
       \<and> (faults e = [] \<longrightarrow> findProduct (i_productId item) d \<noteq> None
            \<longrightarrow> i_downloadCount item < i_downloadLimit item
            \<longrightarrow> (\<exists>resp item'.
                   fst (requestDownload e userId ip ua orderItemId d) = Inr resp
                 \<and> orderItems (snd (requestDownload e userId ip ua orderItemId d))
                     = updateOrderItem orderItemId
                         (\<lambda>i. i\<lparr>i_downloadCount := i_downloadCount i + 1\<rparr>) (orderItems d)
                 \<and> findOrderItem userId orderItemId (snd (requestDownload e userId ip ua orderItemId d))
                     = Some item'
                 \<and> i_downloadCount item' = i_downloadCount item + 1
                 \<and> i_downloadLimit item' = i_downloadLimit item
                 \<and> r_remainingDownloads resp = i_downloadLimit item' - i_downloadCount item'))
       \<and> (distinct (map i_id (orderItems d))
            \<longrightarrow> (\<forall>i\<in>set (orderItems d). i_downloadCount i \<le> i_downloadLimit i)
            \<longrightarrow> (\<forall>i\<in>set (orderItems (snd (requestDownload e userId ip ua orderItemId d))).
                   i_downloadCount i \<le> i_downloadLimit i))"
proof (intro conjI impI)
  let ?res = "requestDownload e userId ip ua orderItemId d"
  let ?f = "\<lambda>i. i\<lparr>i_downloadCount := i_downloadCount i + 1\<rparr>"
  have exp: "\<not> (case i_expiresAt item of None \<Rightarrow> False | Some t \<Rightarrow> clock e 0 > t)"
    using assms(3) by (cases "i_expiresAt item") simp_all
  {
    assume nf: "\<not> fails e OrderItemFindFirst"
    show "fst ?res = Inl LimitReached \<longleftrightarrow> i_downloadCount item \<ge> i_downloadLimit item"
      using assms(1,2) nf exp
      by (simp add: requestDownload_def Let_def split: option.splits)
  }
  {
    assume nf: "\<not> fails e OrderItemFindFirst" and "i_downloadCount item \<ge> i_downloadLimit item"
    then show "?res = (Inl LimitReached, d)"
      using assms(1,2) by (simp add: requestDownload_def)
  }
  {
    assume nf: "faults e = []" and "findProduct (i_productId item) d \<noteq> None"
      and lt: "i_downloadCount item < i_downloadLimit item"
    then obtain pr where pr: "findProduct (i_productId item) d = Some pr" by blast
    have no: "\<And>c. \<not> fails e c" using nf by (simp add: fails_def)
    note p = requestDownload_passed [OF assms(1) no assms(2) lt assms(3) pr no, of ip ua]
    have items: "orderItems (snd ?res) = updateOrderItem orderItemId ?f (orderItems d)"
      using p(2) no by simp
    have "snd ?res = (snd ?res)\<lparr>orderItems := updateOrderItem orderItemId ?f (orderItems d)\<rparr>"
      using items by simp
    have found': "findOrderItem userId orderItemId (snd ?res) = Some (?f item)"
    proof -
      have "findOrderItem userId orderItemId (snd ?res)
              = findOrderItem userId orderItemId (d\<lparr>orderItems := updateOrderItem orderItemId ?f (orderItems d)\<rparr>)"
        using items p(4) by (simp add: findOrderItem_def findOrder_def)
      then show ?thesis using assms(2) by (simp add: findOrderItem_updateOrderItem)
    qed
    have "fst ?res = Inr \<lparr>r_downloadUrl = getSignedDownloadUrl e
                        (clock e (if i_expiresAt item = None then 0 else 1)) (p_fileUrl pr) 3600,
                      r_remainingDownloads = i_downloadLimit item - i_downloadCount item - 1,
                      r_productTitle = i_productTitle item\<rparr>"
      using p(1) no by simp
    with items found'
    show "\<exists>resp item'. fst ?res = Inr resp
                 \<and> orderItems (snd ?res) = updateOrderItem orderItemId ?f (orderItems d)
                 \<and> findOrderItem userId orderItemId (snd ?res) = Some item'
                 \<and> i_downloadCount item' = i_downloadCount item + 1
                 \<and> i_downloadLimit item' = i_downloadLimit item
                 \<and> r_remainingDownloads resp = i_downloadLimit item' - i_downloadCount item'"
      by simp
  }
  {
    assume "distinct (map i_id (orderItems d))"
      "\<forall>i\<in>set (orderItems d). i_downloadCount i \<le> i_downloadLimit i"
    then show "\<forall>i\<in>set (orderItems (snd ?res)). i_downloadCount i \<le> i_downloadLimit i"
      by (rule limit_preserved)
  }
qed

lemma example_item_found:
  "findOrderItem ''u1'' ''i1'' (ledgerDb VERIFIED n t) = Some (itemOf n t)"
  by (simp add: findOrderItem_def findOrder_def ledgerDb_def catalogDb_def orderOf_def itemOf_def)

lemma example_product_found:
  "findProduct (i_productId (itemOf n t)) (ledgerDb st m t') = Some productA"
  by (simp add: findProduct_def ledgerDb_def catalogDb_def itemOf_def productA_def)

lemma example_no_faults: "\<not> fails exampleEnv c"
  by (simp add: fails_def exampleEnv_def)


lemma requestDownload_sequential_example:
  "''i1'' \<noteq> []
   \<and> findOrderItem ''u1'' ''i1'' (ledgerDb VERIFIED 4 None) = Some (itemOf 4 None)
   \<and> faults exampleEnv = []
   \<and> i_downloadCount (itemOf 4 None) < i_downloadLimit (itemOf 4 None)
   \<and> (\<exists>resp item'.
         fst (requestDownload exampleEnv ''u1'' None None ''i1'' (ledgerDb VERIFIED 4 None)) = Inr resp
       \<and> findOrderItem ''u1'' ''i1''
           (snd (requestDownload exampleEnv ''u1'' None None ''i1'' (ledgerDb VERIFIED 4 None))) = Some item'
       \<and> i_downloadCount item' = 5
       \<and> r_remainingDownloads resp = 0)
   \<and> i_downloadCount (itemOf 5 None) \<ge> i_downloadLimit (itemOf 5 None)
   \<and> requestDownload exampleEnv ''u1'' None None ''i1'' (ledgerDb VERIFIED 5 None)
       = (Inl LimitReached, ledgerDb VERIFIED 5 None)"
proof -
  have ne: "''i1'' \<noteq> []" by simp
  have nf: "faults exampleEnv = []" "\<not> fails exampleEnv OrderItemFindFirst"
    by (simp_all add: exampleEnv_def fails_def)
  have ex: "case i_expiresAt (itemOf n None) of None \<Rightarrow> True | Some t \<Rightarrow> \<not> clock exampleEnv 0 > t" for n
    by (simp add: itemOf_def)
  have c4: "i_downloadCount (itemOf 4 None) < i_downloadLimit (itemOf 4 None)"
    "i_downloadCount (itemOf 4 None) = 4" "i_downloadLimit (itemOf 4 None) = 5"
    and c5: "i_downloadCount (itemOf 5 None) \<ge> i_downloadLimit (itemOf 5 None)"
    by (simp_all add: itemOf_def)
  have pr: "findProduct (i_productId (itemOf 4 None)) (ledgerDb VERIFIED 4 None) \<noteq> None"
    by (simp add: example_product_found)
  note t4 = requestDownload_sequential [OF ne example_item_found [of 4 None] ex, of None None]
  note t5 = requestDownload_sequential [OF ne example_item_found [of 5 None] ex, of None None]
  from t4 nf pr c4(1) obtain resp item' where r:
    "fst (requestDownload exampleEnv ''u1'' None None ''i1'' (ledgerDb VERIFIED 4 None)) = Inr resp"
    "findOrderItem ''u1'' ''i1''
       (snd (requestDownload exampleEnv ''u1'' None None ''i1'' (ledgerDb VERIFIED 4 None))) = Some item'"
    "i_downloadCount item' = i_downloadCount (itemOf 4 None) + 1"
    "i_downloadLimit item' = i_downloadLimit (itemOf 4 None)"
    "r_remainingDownloads resp = i_downloadLimit item' - i_downloadCount item'"
    by blast
  have a: "\<exists>resp item'.
         fst (requestDownload exampleEnv ''u1'' None None ''i1'' (ledgerDb VERIFIED 4 None)) = Inr resp
       \<and> findOrderItem ''u1'' ''i1''
           (snd (requestDownload exampleEnv ''u1'' None None ''i1'' (ledgerDb VERIFIED 4 None))) = Some item'
       \<and> i_downloadCount item' = 5
       \<and> r_remainingDownloads resp = 0"
    using r c4 by auto
  have b: "requestDownload exampleEnv ''u1'' None None ''i1'' (ledgerDb VERIFIED 5 None)
       = (Inl LimitReached, ledgerDb VERIFIED 5 None)"
    using t5 nf(2) c5 by blast
  from ne example_item_found [of 4 None] nf(1) c4(1) a c5 b show ?thesis by blast
qed

text \<open>The handler is its two parts run one after the other.\<close>
lemma requestDownload_two_parts:
  "requestDownload e userId ip ua orderItemId d
     = finishDownload e userId ip ua orderItemId (requestDownloadLookup e userId orderItemId d) d"
  by (simp add: requestDownload_def requestDownloadLookup_def requestDownloadWrites_def
      finishDownload_def Let_def split: option.splits)

lemma example_lookup:
  "requestDownloadLookup exampleEnv ''u1'' ''i1'' (ledgerDb VERIFIED 4 None)
     = Inr (itemOf 4 None, ''https://res.cloudinary.com/raw/file-a'')"
proof -
  have "\<not> (i_downloadCount (itemOf 4 None) \<ge> i_downloadLimit (itemOf 4 None))"
    "i_expiresAt (itemOf 4 None) = None"
    "getSignedDownloadUrl exampleEnv (clock exampleEnv 0) (p_fileUrl productA) 3600
       = ''https://res.cloudinary.com/raw/file-a''"
    by (simp_all add: itemOf_def getSignedDownloadUrl_def exampleEnv_def productA_def)
  then show ?thesis
    by (simp add: requestDownloadLookup_def example_item_found example_product_found fails_def
        exampleEnv_def del: not_le)
qed

text \<open>
  Claim C2: \<^verbatim>\<open>requestDownload\<close> answers \<^verbatim>\<open>LimitReached\<close> exactly when
  \<^verbatim>\<open>downloadCount >= downloadLimit\<close> and otherwise increments the count by 1 and returns
  the limit minus the count after the increment, so that the count never exceeds the
  limit. The code holds this for a request that no other request overlaps
  (\<open>requestDownload_sequential\<close>). But it tests the limit on the row that \<^verbatim>\<open>findFirst\<close>
  returned and increments without a condition after its next \<^verbatim>\<open>await\<close>: two requests
  that overlap on an item with count 4 and limit 5 are both served, both are told that 0
  downloads remain, and the count ends at 6.
\<close>
theorem overlapping_downloads_exceed_limit:
  "overlappingDownloads exampleEnv exampleEnv ''u1'' None None ''i1'' (ledgerDb VERIFIED 4 None)
     = (Inr \<lparr>r_downloadUrl = ''https://res.cloudinary.com/raw/file-a'',
              r_remainingDownloads = 0, r_productTitle = ''Product A''\<rparr>,
        Inr \<lparr>r_downloadUrl = ''https://res.cloudinary.com/raw/file-a'',
              r_remainingDownloads = 0, r_productTitle = ''Product A''\<rparr>,
        (ledgerDb VERIFIED 6 None)
          \<lparr>downloadLogs :=
             [\<lparr>l_userId = ''u1'', l_orderItemId = ''i1'', l_productId = ''pA'',
               l_ipAddress = None, l_userAgent = None\<rparr>,
              \<lparr>l_userId = ''u1'', l_orderItemId = ''i1'', l_productId = ''pA'',
               l_ipAddress = None, l_userAgent = None\<rparr>],
           products := [productA\<lparr>p_downloadCount := 2\<rparr>, productB, productC]\<rparr>)
   \<and> i_downloadLimit (itemOf 6 None) = 5 \<and> i_downloadCount (itemOf 6 None) = 6"
proof -
  have w: "requestDownloadWrites exampleEnv ''u1'' None None ''i1''
             (itemOf 4 None, ''https://res.cloudinary.com/raw/file-a'') d
           = (Inr \<lparr>r_downloadUrl = ''https://res.cloudinary.com/raw/file-a'',
                    r_remainingDownloads = 0, r_productTitle = ''Product A''\<rparr>,
              d\<lparr>orderItems := updateOrderItem ''i1''
                    (\<lambda>i. i\<lparr>i_downloadCount := i_downloadCount i + 1\<rparr>) (orderItems d),
                downloadLogs := downloadLogs d @
                    [\<lparr>l_userId = ''u1'', l_orderItemId = ''i1'', l_productId = ''pA'',
                      l_ipAddress = None, l_userAgent = None\<rparr>],
                products := updateProduct ''pA''
                    (\<lambda>p. p\<lparr>p_downloadCount := p_downloadCount p + 1\<rparr>) (products d)\<rparr>)" for d
    by (simp add: requestDownloadWrites_def Let_def example_no_faults itemOf_def)
  have "overlappingDownloads exampleEnv exampleEnv ''u1'' None None ''i1'' (ledgerDb VERIFIED 4 None)
     = (Inr \<lparr>r_downloadUrl = ''https://res.cloudinary.com/raw/file-a'',
              r_remainingDownloads = 0, r_productTitle = ''Product A''\<rparr>,
        Inr \<lparr>r_downloadUrl = ''https://res.cloudinary.com/raw/file-a'',
              r_remainingDownloads = 0, r_productTitle = ''Product A''\<rparr>,
        (ledgerDb VERIFIED 6 None)
          \<lparr>downloadLogs :=
             [\<lparr>l_userId = ''u1'', l_orderItemId = ''i1'', l_productId = ''pA'',
               l_ipAddress = None, l_userAgent = None\<rparr>,
              \<lparr>l_userId = ''u1'', l_orderItemId = ''i1'', l_productId = ''pA'',
               l_ipAddress = None, l_userAgent = None\<rparr>],
           products := [productA\<lparr>p_downloadCount := 2\<rparr>, productB, productC]\<rparr>)"
    unfolding overlappingDownloads_def example_lookup finishDownload_def Let_def
    by (simp add: w)
       (simp add: ledgerDb_def catalogDb_def itemOf_def updateOrderItem_def updateProduct_def
          productA_def productB_def productC_def)
  then show ?thesis by (simp add: itemOf_def)
qed

text \<open>
  Claim C10: an item of a \<^verbatim>\<open>VERIFIED\<close> order of the requesting user whose
  \<^verbatim>\<open>expiresAt\<close> is null and whose count is below its limit is served at any time: the
  expiry check is \<^verbatim>\<open>orderItem.expiresAt && new Date() > orderItem.expiresAt\<close>, which is
  falsy for null, so the signed URL is returned whatever the clock reads. (The product
  row exists and the collaborator calls succeed.)
\<close>
theorem requestDownload_without_expiry:
  assumes "orderItemId \<noteq> []"
    and "findOrderItem userId orderItemId d = Some item"
    and "i_downloadCount item < i_downloadLimit item"
    and "i_expiresAt item = None"
    and "findProduct (i_productId item) d = Some pr"
    and "faults e = []"
  shows "fst (requestDownload e userId ip ua orderItemId d)
           = Inr \<lparr>r_downloadUrl = getSignedDownloadUrl e (clock e 0) (p_fileUrl pr) 3600,
                  r_remainingDownloads = i_downloadLimit item - i_downloadCount item - 1,
                  r_productTitle = i_productTitle item\<rparr>"
proof -
  have no: "\<And>c. \<not> fails e c" using assms(6) by (simp add: fails_def)
  have ex: "case i_expiresAt item of None \<Rightarrow> True | Some t \<Rightarrow> \<not> clock e 0 > t"
    using assms(4) by simp
  show ?thesis
    using requestDownload_passed(1) [OF assms(1) no assms(2,3) ex assms(5) no, of ip ua] no assms(4)
    by simp
qed

theorem requestDownload_without_expiry_witness:
  "''i1'' \<noteq> []
   \<and> findOrderItem ''u1'' ''i1'' (ledgerDb VERIFIED 0 None) = Some (itemOf 0 None)
   \<and> i_downloadCount (itemOf 0 None) < i_downloadLimit (itemOf 0 None)
   \<and> i_expiresAt (itemOf 0 None) = None
   \<and> findProduct (i_productId (itemOf 0 None)) (ledgerDb VERIFIED 0 None) = Some productA
   \<and> faults laterEnv = []
   \<and> fst (requestDownload laterEnv ''u1'' None None ''i1'' (ledgerDb VERIFIED 0 None))
       = Inr \<lparr>r_downloadUrl = ''https://res.cloudinary.com/raw/file-a'',
              r_remainingDownloads = 4, r_productTitle = ''Product A''\<rparr>"
proof -
  have ne: "''i1'' \<noteq> []" by simp
  have c: "i_downloadCount (itemOf 0 None) < i_downloadLimit (itemOf 0 None)"
    "i_expiresAt (itemOf 0 None) = None"
    by (simp_all add: itemOf_def)
  have nf: "faults laterEnv = []" by (simp add: laterEnv_def exampleEnv_def)
  have v: "getSignedDownloadUrl laterEnv (clock laterEnv 0) (p_fileUrl productA) 3600
             = ''https://res.cloudinary.com/raw/file-a''"
    "i_downloadLimit (itemOf 0 None) - i_downloadCount (itemOf 0 None) - 1 = 4"
    "i_productTitle (itemOf 0 None) = ''Product A''"
    by (simp_all add: getSignedDownloadUrl_def laterEnv_def exampleEnv_def productA_def itemOf_def)
  note t = requestDownload_without_expiry [OF ne example_item_found [of 0 None] c example_product_found nf,
      of None None]
  have "fst (requestDownload laterEnv ''u1'' None None ''i1'' (ledgerDb VERIFIED 0 None))
       = Inr \<lparr>r_downloadUrl = ''https://res.cloudinary.com/raw/file-a'',
              r_remainingDownloads = 4, r_productTitle = ''Product A''\<rparr>"
    unfolding t v ..
  with ne example_item_found [of 0 None] c example_product_found [of 0 None VERIFIED 0 None] nf
  show ?thesis by blast
qed

text \<open>
  Claim C6, as stated: a request that passes the ownership, limit and expiry checks and
  whose count increment succeeds still returns the signed URL when the insertion of the
  download log row fails. This fails: the insertion is a member of the awaited
  \<^verbatim>\<open>Promise.all\<close>, so its rejection reaches the \<^verbatim>\<open>catch\<close> block, which answers 500
  \<^verbatim>\<open>Failed to generate download link\<close>; the count has been incremented all the same.
\<close>
theorem audit_failure_counterexample:
  "findOrderItem ''u1'' ''i1'' (ledgerDb VERIFIED 0 None) = Some (itemOf 0 None)
   \<and> i_downloadCount (itemOf 0 None) < i_downloadLimit (itemOf 0 None)
   \<and> i_expiresAt (itemOf 0 None) = None
   \<and> fails auditFailEnv DownloadLogCreate
   \<and> \<not> fails auditFailEnv (OrderItemUpdate ''i1'')
   \<and> fst (requestDownload auditFailEnv ''u1'' None None ''i1'' (ledgerDb VERIFIED 0 None))
       = Inl DownloadFailed
   \<and> orderItems (snd (requestDownload auditFailEnv ''u1'' None None ''i1'' (ledgerDb VERIFIED 0 None)))
       = [itemOf 1 None]"
proof -
  have c: "i_downloadCount (itemOf 0 None) < i_downloadLimit (itemOf 0 None)"
    "i_expiresAt (itemOf 0 None) = None"
    "case i_expiresAt (itemOf 0 None) of None \<Rightarrow> True | Some t \<Rightarrow> \<not> clock auditFailEnv 0 > t"
    by (simp_all add: itemOf_def)
  have f: "fails auditFailEnv DownloadLogCreate" "\<not> fails auditFailEnv (OrderItemUpdate ''i1'')"
    "\<not> fails auditFailEnv OrderItemFindFirst" "\<not> fails auditFailEnv CloudinaryUrl"
    by (simp_all add: auditFailEnv_def exampleEnv_def fails_def)
  have ne: "''i1'' \<noteq> []" by simp
  note p = requestDownload_passed [OF ne f(3) example_item_found [of 0 None] c(1) c(3)
      example_product_found f(4), of None None]
  have "updateOrderItem ''i1'' (\<lambda>i. i\<lparr>i_downloadCount := i_downloadCount i + 1\<rparr>)
          (orderItems (ledgerDb VERIFIED 0 None)) = [itemOf 1 None]"
    by (simp add: updateOrderItem_def ledgerDb_def itemOf_def)
  with p(1,2) f c(1,2) example_item_found [of 0 None] show ?thesis by simp
qed

text \<open>
  Claim C6, amended: for a request that passes the ownership, limit and expiry checks and
  whose count increment succeeds, the signed URL is returned exactly when the insertion
  of the download log row and the increment of the product's counter both succeed; when
  the insertion of the log row fails, the request is answered 500
  \<^verbatim>\<open>Failed to generate download link\<close>, no log row is added, and the item's count stays
  incremented.
\<close>
theorem audit_failure_aborts:
  assumes "orderItemId \<noteq> []" "\<not> fails e OrderItemFindFirst"
    and "findOrderItem userId orderItemId d = Some item"
    and "i_downloadCount item < i_downloadLimit item"
    and "case i_expiresAt item of None \<Rightarrow> True | Some t \<Rightarrow> \<not> clock e 0 > t"
    and "findProduct (i_productId item) d = Some pr" "\<not> fails e CloudinaryUrl"
    and "\<not> fails e (OrderItemUpdate orderItemId)"
  shows "((\<exists>resp. fst (requestDownload e userId ip ua orderItemId d) = Inr resp)
            \<longleftrightarrow> \<not> fails e DownloadLogCreate \<and> \<not> fails e ProductUpdate)
       \<and> (fails e DownloadLogCreate \<longrightarrow>
            fst (requestDownload e userId ip ua orderItemId d) = Inl DownloadFailed
          \<and> downloadLogs (snd (requestDownload e userId ip ua orderItemId d)) = downloadLogs d
          \<and> orderItems (snd (requestDownload e userId ip ua orderItemId d))
              = updateOrderItem orderItemId
                  (\<lambda>i. i\<lparr>i_downloadCount := i_downloadCount i + 1\<rparr>) (orderItems d))"
  using requestDownload_passed(1-3) [OF assms(1-7), of ip ua] assms(8)
  by (simp split: if_splits)

theorem audit_failure_aborts_witness:
  "''i1'' \<noteq> [] \<and> \<not> fails auditFailEnv OrderItemFindFirst
   \<and> findOrderItem ''u1'' ''i1'' (ledgerDb VERIFIED 0 None) = Some (itemOf 0 None)
   \<and> i_downloadCount (itemOf 0 None) < i_downloadLimit (itemOf 0 None)
   \<and> findProduct (i_productId (itemOf 0 None)) (ledgerDb VERIFIED 0 None) = Some productA
   \<and> \<not> fails auditFailEnv CloudinaryUrl
   \<and> \<not> fails auditFailEnv (OrderItemUpdate ''i1'')
   \<and> fails auditFailEnv DownloadLogCreate
   \<and> fst (requestDownload auditFailEnv ''u1'' None None ''i1'' (ledgerDb VERIFIED 0 None))
       = Inl DownloadFailed
   \<and> downloadLogs (snd (requestDownload auditFailEnv ''u1'' None None ''i1'' (ledgerDb VERIFIED 0 None)))
       = downloadLogs (ledgerDb VERIFIED 0 None)"
proof -
  have c: "i_downloadCount (itemOf 0 None) < i_downloadLimit (itemOf 0 None)"
    "case i_expiresAt (itemOf 0 None) of None \<Rightarrow> True | Some t \<Rightarrow> \<not> clock auditFailEnv 0 > t"
    by (simp_all add: itemOf_def)
  have f: "fails auditFailEnv DownloadLogCreate" "\<not> fails auditFailEnv (OrderItemUpdate ''i1'')"
    "\<not> fails auditFailEnv OrderItemFindFirst" "\<not> fails auditFailEnv CloudinaryUrl"
    by (simp_all add: auditFailEnv_def exampleEnv_def fails_def)
  have ne: "''i1'' \<noteq> []" by simp
  note t = audit_failure_aborts [OF ne f(3) example_item_found [of 0 None] c
      example_product_found f(4) f(2), of None None]
  from t f(1) have
    "fst (requestDownload auditFailEnv ''u1'' None None ''i1'' (ledgerDb VERIFIED 0 None))
       = Inl DownloadFailed"
    "downloadLogs (snd (requestDownload auditFailEnv ''u1'' None None ''i1'' (ledgerDb VERIFIED 0 None)))
       = downloadLogs (ledgerDb VERIFIED 0 None)"
    by blast+
  with ne f c(1) example_item_found [of 0 None] example_product_found [of 0 None VERIFIED 0 None]
  show ?thesis by blast
qed

subsection \<open>Verification\<close>










subsection \<open>Sums of JavaScript numbers\<close>

lemma floor_rat_numeral [simp]:
  "\<lfloor>(numeral a :: rat) / numeral b\<rfloor> = numeral a div numeral b"
  using floor_divide_of_int_eq [of "numeral a" "numeral b", where ?'a = rat] by simp













subsection \<open>Order creation\<close>




text \<open>The outcome of \<^verbatim>\<open>createOrder\<close> once the cart has been read and is not empty.\<close>
lemma createOrder_cases:
  assumes "\<not> fails e RedisGet" "rd (''cart:user:'' @ userId) = Some productIds"
    "productIds \<noteq> []" "\<not> fails e ProductFindMany"
  shows "createOrder e userId userEmail (rd, d) =
    (let ps = findActiveProducts productIds d;
         ord = newOrder e userId userEmail (generateOrderNumber e) (totalOf ps);
         items = map (newOrderItem e) (enumerate 1 ps);
         d1 = d\<lparr>orders := orders d @ [ord], orderItems := orderItems d @ items\<rparr>
     in if ps = [] then (Inl NoValidProducts, rd, d)
        else if fails e OrderCreate then (Inl CreateOrderFailed, rd, d)
        else if fails e QRCodeToDataURL \<or> fails e RedisDel then (Inl CreateOrderFailed, rd, d1)
        else (Inr \<lparr>c_order = ord, c_items = items,
                   c_payment = \<lparr>pay_upiId = orDefault (UPI_ID e) ''merchant@upi'',
                     pay_amount = totalOf ps,
                     pay_qrCode = qrCodeDataUrl e
                        \<lparr>u_upiId = orDefault (UPI_ID e) ''merchant@upi'',
                         u_name = orDefault (UPI_NAME e) ''DigitalGhar'',
                         u_amount = totalOf ps, u_orderId = generateOrderNumber e\<rparr>,
                     pay_note = ''Order: '' @ generateOrderNumber e\<rparr>\<rparr>,
              rd(''cart:user:'' @ userId := None), d1))"
  using assms by (simp add: createOrder_def Let_def)

lemma example_cart:
  "cartAB (''cart:user:'' @ ''u1'') = Some [''pA'', ''pB'']"
  by (simp add: cartAB_def emptyRedis_def)

lemma example_active: "findActiveProducts [''pA'', ''pB''] catalogDb = [productA]"
  by (simp add: findActiveProducts_def catalogDb_def productA_def productB_def productC_def)








text \<open>
  Claim C7: \<^verbatim>\<open>createOrder\<close> deletes the caller's cart key only on success. Whenever the
  handler fails, the cart store is unchanged: in particular when the insertion of the
  order is rejected, and when the QR code of the payment request cannot be generated
  (the order rows are then already inserted). The cart key is deleted exactly when the
  handler answers 201 \<^verbatim>\<open>Order created\<close>.
\<close>
theorem createOrder_clears_cart_on_success:
  "((\<exists>c. fst (createOrder e userId userEmail (rd, d)) = Inr c)
      \<longleftrightarrow> rd (''cart:user:'' @ userId) \<noteq> None
          \<and> fst (snd (createOrder e userId userEmail (rd, d))) (''cart:user:'' @ userId) = None)
   \<and> ((\<exists>c. fst (createOrder e userId userEmail (rd, d)) = Inr c)
        \<longrightarrow> fst (snd (createOrder e userId userEmail (rd, d))) = rd(''cart:user:'' @ userId := None))
   \<and> (\<not> (\<exists>c. fst (createOrder e userId userEmail (rd, d)) = Inr c)
        \<longrightarrow> fst (snd (createOrder e userId userEmail (rd, d))) = rd)
   \<and> (\<not> fails e RedisGet \<longrightarrow> rd (''cart:user:'' @ userId) = Some productIds
        \<longrightarrow> productIds \<noteq> [] \<longrightarrow> \<not> fails e ProductFindMany
        \<longrightarrow> findActiveProducts productIds d \<noteq> []
        \<longrightarrow> (fails e OrderCreate \<longrightarrow>
               createOrder e userId userEmail (rd, d) = (Inl CreateOrderFailed, rd, d))
          \<and> (\<not> fails e OrderCreate \<longrightarrow> fails e QRCodeToDataURL \<longrightarrow>
               fst (createOrder e userId userEmail (rd, d)) = Inl CreateOrderFailed
             \<and> fst (snd (createOrder e userId userEmail (rd, d))) = rd
             \<and> length (orders (snd (snd (createOrder e userId userEmail (rd, d)))))
                 = Suc (length (orders d))))"
proof -
  let ?res = "createOrder e userId userEmail (rd, d)"
  let ?key = "''cart:user:'' @ userId"
  have validated: "(fails e OrderCreate \<longrightarrow> ?res = (Inl CreateOrderFailed, rd, d))
          \<and> (\<not> fails e OrderCreate \<longrightarrow> fails e QRCodeToDataURL \<longrightarrow>
               fst ?res = Inl CreateOrderFailed \<and> fst (snd ?res) = rd
             \<and> length (orders (snd (snd ?res))) = Suc (length (orders d)))"
    if v: "\<not> fails e RedisGet" "rd ?key = Some productIds" "productIds \<noteq> []"
      "\<not> fails e ProductFindMany" and ps: "findActiveProducts productIds d \<noteq> []"
    unfolding createOrder_cases [where e=e and rd=rd and userId=userId and productIds=productIds
        and userEmail=userEmail and d=d, OF v]
    using ps by (simp add: Let_def)
  have general: "(\<exists>c. fst ?res = Inr c) \<and> rd ?key \<noteq> None \<and> fst (snd ?res) = rd(?key := None)
      \<or> \<not> (\<exists>c. fst ?res = Inr c) \<and> fst (snd ?res) = rd"
  proof (cases "\<not> fails e RedisGet \<and> (\<exists>productIds. rd ?key = Some productIds \<and> productIds \<noteq> [])
                 \<and> \<not> fails e ProductFindMany")
    case True
    then obtain productIds where v: "\<not> fails e RedisGet" "rd ?key = Some productIds"
      "productIds \<noteq> []" "\<not> fails e ProductFindMany" by blast
    show ?thesis
      unfolding createOrder_cases [where e=e and rd=rd and userId=userId and productIds=productIds
        and userEmail=userEmail and d=d, OF v]
      using v(2) by (simp add: Let_def)
  next
    case False
    then have "\<not> (\<exists>c. fst ?res = Inr c) \<and> fst (snd ?res) = rd"
      by (cases "rd ?key") (auto simp: createOrder_def Let_def)
    then show ?thesis by blast
  qed
  have iff: "(\<exists>c. fst ?res = Inr c) \<longleftrightarrow> rd ?key \<noteq> None \<and> fst (snd ?res) ?key = None"
    using general by auto
  have succ: "(\<exists>c. fst ?res = Inr c) \<longrightarrow> fst (snd ?res) = rd(?key := None)"
    using general by blast
  have fail: "\<not> (\<exists>c. fst ?res = Inr c) \<longrightarrow> fst (snd ?res) = rd"
    using general by blast
  from iff succ fail validated show ?thesis by blast
qed

theorem createOrder_clears_cart_on_success_witness:
  "\<not> fails qrFailEnv RedisGet \<and> cartAB (''cart:user:'' @ ''u1'') = Some [''pA'', ''pB'']
   \<and> [''pA'', ''pB''] \<noteq> [] \<and> \<not> fails qrFailEnv ProductFindMany
   \<and> findActiveProducts [''pA'', ''pB''] catalogDb \<noteq> []
   \<and> \<not> fails qrFailEnv OrderCreate \<and> fails qrFailEnv QRCodeToDataURL
   \<and> fst (createOrder qrFailEnv ''u1'' ''u1@example.org'' (cartAB, catalogDb)) = Inl CreateOrderFailed
   \<and> fst (snd (createOrder qrFailEnv ''u1'' ''u1@example.org'' (cartAB, catalogDb))) = cartAB
   \<and> length (orders (snd (snd (createOrder qrFailEnv ''u1'' ''u1@example.org'' (cartAB, catalogDb)))))
       = Suc (length (orders catalogDb))
   \<and> (\<exists>c. fst (createOrder exampleEnv ''u1'' ''u1@example.org'' (cartAB, catalogDb)) = Inr c)
   \<and> cartAB (''cart:user:'' @ ''u1'') \<noteq> None
   \<and> fst (snd (createOrder exampleEnv ''u1'' ''u1@example.org'' (cartAB, catalogDb)))
        (''cart:user:'' @ ''u1'') = None"
proof -
  have ne: "[''pA'', ''pB''] \<noteq> []" by simp
  have f: "\<not> fails qrFailEnv RedisGet" "\<not> fails qrFailEnv ProductFindMany"
    "\<not> fails qrFailEnv OrderCreate" "fails qrFailEnv QRCodeToDataURL"
    by (simp_all add: fails_def qrFailEnv_def exampleEnv_def)
  have ps: "findActiveProducts [''pA'', ''pB''] catalogDb \<noteq> []"
    unfolding example_active by simp
  note t = createOrder_clears_cart_on_success [where e=qrFailEnv and rd=cartAB and userId="''u1''"
      and productIds="[''pA'', ''pB'']" and userEmail="''u1@example.org''" and d=catalogDb]
  note s = createOrder_clears_cart_on_success [where e=exampleEnv and rd=cartAB and userId="''u1''"
      and productIds="[''pA'', ''pB'']" and userEmail="''u1@example.org''" and d=catalogDb]
  from t f ps example_cart ne have a:
    "fst (createOrder qrFailEnv ''u1'' ''u1@example.org'' (cartAB, catalogDb)) = Inl CreateOrderFailed"
    "fst (snd (createOrder qrFailEnv ''u1'' ''u1@example.org'' (cartAB, catalogDb))) = cartAB"
    "length (orders (snd (snd (createOrder qrFailEnv ''u1'' ''u1@example.org'' (cartAB, catalogDb)))))
       = Suc (length (orders catalogDb))"
    by blast+
  have ok: "\<exists>c. fst (createOrder exampleEnv ''u1'' ''u1@example.org'' (cartAB, catalogDb)) = Inr c"
    unfolding createOrder_cases [where e=exampleEnv and rd=cartAB and userId="''u1''"
        and productIds="[''pA'', ''pB'']" and userEmail="''u1@example.org''" and d=catalogDb,
        OF example_no_faults example_cart ne example_no_faults]
    using ps example_no_faults by (simp add: Let_def)
  with s have b: "cartAB (''cart:user:'' @ ''u1'') \<noteq> None"
    "fst (snd (createOrder exampleEnv ''u1'' ''u1@example.org'' (cartAB, catalogDb)))
        (''cart:user:'' @ ''u1'') = None"
    by blast+
  from f example_cart ne ps a ok b show ?thesis by blast
qed

subsection \<open>Order numbers\<close>

lemma orderNumberSuffix_eq:
  "orderNumberSuffix e = toUpperCase (substring (randomBase36 e) 2 8)"
  by (simp add: orderNumberSuffix_def generateOrderNumber_def Let_def)

lemma orderNumberSuffix_length:
  "length (orderNumberSuffix e) = min 6 (length (randomBase36 e) - 2)"
  by (simp add: orderNumberSuffix_eq toUpperCase_def substring_def)

lemma example_order_number: "generateOrderNumber exampleEnv = ''ORD-202611-4FZYO8''"
  by code_simp

text \<open>
  Claim C8: every generated order number is \<^verbatim>\<open>ORD-YYYYMM-\<close> followed by exactly six base 36
  characters. The code takes \<^verbatim>\<open>Math.random().toString(36).substring(2, 8)\<close>, which has
  six characters only when the text printed for the random number has at least eight.
  When \<^verbatim>\<open>Math.random()\<close> returns 0.5 the text is \<^verbatim>\<open>0.i\<close> and the suffix is the single
  character \<^verbatim>\<open>I\<close>.
\<close>
theorem generateOrderNumber_short_suffix:
  "generateOrderNumber halfEnv = ''ORD-202611-I'' \<and> length (orderNumberSuffix halfEnv) = 1"
  by code_simp

subsection \<open>Cart store\<close>

lemma findProduct_Some: "findProduct pid d = Some p \<Longrightarrow> p \<in> set (products d) \<and> p_id p = pid"
  unfolding findProduct_def using find_Some_set by fastforce

lemma addToCart_fresh:
  assumes "\<not> fails e ProductFindUnique" "\<not> fails e RedisGet" "\<not> fails e RedisSetex"
    "productId \<noteq> []" "findProduct productId d = Some p" "p_isActive p"
    "productId \<notin> set (case rd (getCartKey req) of None \<Rightarrow> [] | Some ids \<Rightarrow> ids)"
  shows "addToCart e req productId (rd, d)
           = (Inr (Suc (length (case rd (getCartKey req) of None \<Rightarrow> [] | Some ids \<Rightarrow> ids))),
              rd(getCartKey req \<mapsto> (case rd (getCartKey req) of None \<Rightarrow> [] | Some ids \<Rightarrow> ids) @ [productId]))"
  using assms by (simp add: addToCart_def Let_def)

lemma removeFromCart_stored:
  assumes "\<not> fails e RedisGet" "\<not> fails e RedisSetex" "\<not> fails e RedisDel"
    "rd (getCartKey req) = Some ids"
  shows "removeFromCart e req productId rd
           = (Inr (length (filter (\<lambda>i. i \<noteq> productId) ids)),
              if filter (\<lambda>i. i \<noteq> productId) ids = [] then rd(getCartKey req := None)
              else rd(getCartKey req \<mapsto> filter (\<lambda>i. i \<noteq> productId) ids))"
  using assms by (simp add: removeFromCart_def Let_def)

lemma getCart_stored:
  assumes "\<not> fails e RedisGet" "\<not> fails e ProductFindMany"
    "rd (getCartKey req) = Some ids" "ids \<noteq> []"
  shows "getCart e req (rd, d) = Inr (findActiveProducts ids d, parseFloatToFixed2 (totalOf (findActiveProducts ids d)))"
  using assms by (simp add: getCart_def Let_def)

lemma active_ids:
  assumes "\<forall>i\<in>set ids. \<exists>p. findProduct i d = Some p \<and> p_isActive p"
  shows "p_id ` set (findActiveProducts ids d) = set ids"
proof
  show "p_id ` set (findActiveProducts ids d) \<subseteq> set ids"
    by (auto simp: findActiveProducts_def)
  show "set ids \<subseteq> p_id ` set (findActiveProducts ids d)"
  proof
    fix i assume i: "i \<in> set ids"
    with assms obtain p where p: "findProduct i d = Some p" "p_isActive p" by blast
    from findProduct_Some [OF p(1)] have "p \<in> set (products d)" "p_id p = i" by simp_all
    with i p(2) have "p \<in> set (findActiveProducts ids d)"
      by (simp add: findActiveProducts_def)
    then show "i \<in> p_id ` set (findActiveProducts ids d)"
      using \<open>p_id p = i\<close> by (metis imageI)
  qed
qed

text \<open>
  Claim C9, as stated, ends: removing a product that is not, or no longer, in the cart
  succeeds with the cart unchanged. This fails once the cart key is gone: the removal of
  the last product deletes the key, and \<^verbatim>\<open>remove\<close> answers 404 \<^verbatim>\<open>Cart is empty\<close> when no
  key is stored.
\<close>
theorem cart_remove_counterexample:
  "addToCart exampleEnv userRequest ''pA'' (emptyRedis, catalogDb)
     = (Inr 1, emptyRedis(''cart:user:u1'' \<mapsto> [''pA'']))
   \<and> removeFromCart exampleEnv userRequest ''pA'' (emptyRedis(''cart:user:u1'' \<mapsto> [''pA'']))
     = (Inr 0, emptyRedis)
   \<and> removeFromCart exampleEnv userRequest ''pA'' emptyRedis = (Inl CartIsEmpty, emptyRedis)"
proof -
  have k: "getCartKey userRequest = ''cart:user:u1''"
    by (simp add: getCartKey_def userRequest_def)
  have e: "emptyRedis ''cart:user:u1'' = None" by (simp add: emptyRedis_def)
  have p: "findProduct ''pA'' catalogDb = Some productA" "p_isActive productA"
    by (simp_all add: findProduct_def catalogDb_def productA_def)
  have a: "addToCart exampleEnv userRequest ''pA'' (emptyRedis, catalogDb)
     = (Inr 1, emptyRedis(''cart:user:u1'' \<mapsto> [''pA'']))"
    using addToCart_fresh [where e=exampleEnv and req=userRequest and productId="''pA''"
        and rd=emptyRedis and d=catalogDb and p=productA, OF example_no_faults example_no_faults
        example_no_faults _ p]
    by (simp add: k e)
  have r: "removeFromCart exampleEnv userRequest ''pA'' (emptyRedis(''cart:user:u1'' \<mapsto> [''pA'']))
     = (Inr 0, emptyRedis)"
    using removeFromCart_stored [where e=exampleEnv and req=userRequest and productId="''pA''"
        and rd="emptyRedis(''cart:user:u1'' \<mapsto> [''pA''])" and ids="[''pA'']",
        OF example_no_faults example_no_faults example_no_faults]
    by (simp add: k emptyRedis_def)
  have n: "removeFromCart exampleEnv userRequest ''pA'' emptyRedis = (Inl CartIsEmpty, emptyRedis)"
    by (simp add: removeFromCart_def k e example_no_faults)
  from a r n show ?thesis by blast
qed

text \<open>
  Claim C9, amended: for any owner with no cart stored and distinct active products
  \<open>p1\<close>, \<open>p2\<close>: after \<^verbatim>\<open>add(p1)\<close> and \<^verbatim>\<open>add(p2)\<close>, \<^verbatim>\<open>get\<close> returns exactly the products
  \<open>p1\<close> and \<open>p2\<close>; after \<^verbatim>\<open>remove(p1)\<close>, \<^verbatim>\<open>get\<close> returns exactly \<open>p2\<close>; after
  \<^verbatim>\<open>remove(p2)\<close> no key is stored for the owner. Removing a product that is not in a
  stored cart succeeds and leaves the store unchanged; \<^verbatim>\<open>remove\<close> when no cart key is
  stored is answered 404 \<^verbatim>\<open>Cart is empty\<close> and leaves the store unchanged. (The
  collaborator calls succeed.)
\<close>
theorem cart_round_trip:
  fixes rd :: redis
  assumes "faults e = []" "p1 \<noteq> p2" "p1 \<noteq> []" "p2 \<noteq> []"
    and "findProduct p1 d = Some a" "p_isActive a" "findProduct p2 d = Some b" "p_isActive b"
    and "rd (getCartKey req) = None"
  defines "rd1 \<equiv> snd (addToCart e req p1 (rd, d))"
  defines "rd2 \<equiv> snd (addToCart e req p2 (rd1, d))"
  defines "rd3 \<equiv> snd (removeFromCart e req p1 rd2)"
  defines "rd4 \<equiv> snd (removeFromCart e req p2 rd3)"
  shows "fst (addToCart e req p1 (rd, d)) = Inr 1
       \<and> fst (addToCart e req p2 (rd1, d)) = Inr 2
       \<and> (\<exists>ps total. getCart e req (rd2, d) = Inr (ps, total) \<and> p_id ` set ps = {p1, p2})
       \<and> fst (removeFromCart e req p1 rd2) = Inr 1
       \<and> (\<exists>ps total. getCart e req (rd3, d) = Inr (ps, total) \<and> p_id ` set ps = {p2})
       \<and> fst (removeFromCart e req p2 rd3) = Inr 0
       \<and> rd4 (getCartKey req) = None
       \<and> (rd' (getCartKey req) = Some ids \<longrightarrow> q \<notin> set ids \<longrightarrow> ids \<noteq> []
            \<longrightarrow> removeFromCart e req q rd' = (Inr (length ids), rd'))
       \<and> (rd' (getCartKey req) = None
            \<longrightarrow> removeFromCart e req q rd' = (Inl CartIsEmpty, rd'))"
proof -
  let ?k = "getCartKey req"
  have no: "\<And>c. \<not> fails e c" using assms(1) by (simp add: fails_def)
  have add1: "addToCart e req p1 (rd, d) = (Inr 1, rd(?k \<mapsto> [p1]))"
    using addToCart_fresh [where e=e and req=req and productId=p1 and rd=rd and d=d and p=a,
        OF no no no assms(3,5,6)] assms(9)
    by simp
  then have rd1: "rd1 = rd(?k \<mapsto> [p1])" by (simp add: rd1_def)
  have add2: "addToCart e req p2 (rd1, d) = (Inr 2, rd(?k \<mapsto> [p1, p2]))"
    using addToCart_fresh [where e=e and req=req and productId=p2 and rd=rd1 and d=d and p=b,
        OF no no no assms(4,7,8)] assms(2)
    by (simp add: rd1)
  then have rd2: "rd2 = rd(?k \<mapsto> [p1, p2])" by (simp add: rd2_def)
  have act: "\<forall>i\<in>set [p1, p2]. \<exists>p. findProduct i d = Some p \<and> p_isActive p"
    "\<forall>i\<in>set [p2]. \<exists>p. findProduct i d = Some p \<and> p_isActive p"
    using assms(5-8) by simp_all
  have get2: "getCart e req (rd2, d)
                = Inr (findActiveProducts [p1, p2] d, parseFloatToFixed2 (totalOf (findActiveProducts [p1, p2] d)))"
    by (rule getCart_stored [OF no no]) (simp_all add: rd2)
  have ids2: "p_id ` set (findActiveProducts [p1, p2] d) = {p1, p2}"
    using active_ids [OF act(1)] by simp
  have rem1: "removeFromCart e req p1 rd2 = (Inr 1, rd(?k \<mapsto> [p2]))"
    using removeFromCart_stored [where e=e and req=req and productId=p1 and rd=rd2
        and ids="[p1, p2]", OF no no no] assms(2)
    by (simp add: rd2)
  then have rd3: "rd3 = rd(?k \<mapsto> [p2])" by (simp add: rd3_def)
  have get3: "getCart e req (rd3, d)
                = Inr (findActiveProducts [p2] d, parseFloatToFixed2 (totalOf (findActiveProducts [p2] d)))"
    by (rule getCart_stored [OF no no]) (simp_all add: rd3)
  have ids3: "p_id ` set (findActiveProducts [p2] d) = {p2}"
    using active_ids [OF act(2)] by simp
  have rem2: "removeFromCart e req p2 rd3 = (Inr 0, rd(?k := None))"
    using removeFromCart_stored [where e=e and req=req and productId=p2 and rd=rd3
        and ids="[p2]", OF no no no]
    by (simp add: rd3)
  then have rd4: "rd4 ?k = None" by (simp add: rd4_def)
  have idem: "removeFromCart e req q rd' = (Inr (length ids), rd')"
    if "rd' ?k = Some ids" "q \<notin> set ids" "ids \<noteq> []"
  proof -
    have f: "filter (\<lambda>i. i \<noteq> q) ids = ids" using that(2) by (induction ids) auto
    have "rd'(?k \<mapsto> ids) = rd'" using that(1) by (rule fun_upd_idem)
    then show ?thesis
      using removeFromCart_stored [where e=e and req=req and productId=q and rd=rd' and ids=ids,
          OF no no no that(1)] that(3)
      by (simp add: f)
  qed
  have absent: "removeFromCart e req q rd' = (Inl CartIsEmpty, rd')" if "rd' ?k = None"
    using that no by (simp add: removeFromCart_def)
  have g2: "\<exists>ps total. getCart e req (rd2, d) = Inr (ps, total) \<and> p_id ` set ps = {p1, p2}"
    unfolding get2 using ids2 by blast
  have g3: "\<exists>ps total. getCart e req (rd3, d) = Inr (ps, total) \<and> p_id ` set ps = {p2}"
    unfolding get3 using ids3 by blast
  have f: "fst (addToCart e req p1 (rd, d)) = Inr 1" "fst (addToCart e req p2 (rd1, d)) = Inr 2"
    "fst (removeFromCart e req p1 rd2) = Inr 1" "fst (removeFromCart e req p2 rd3) = Inr 0"
    by (simp_all add: add1 add2 rem1 rem2)
  from f g2 g3 rd4 idem absent show ?thesis by blast
qed

theorem cart_round_trip_witness:
  "faults exampleEnv = [] \<and> ''pA'' \<noteq> ''pC'' \<and> ''pA'' \<noteq> [] \<and> ''pC'' \<noteq> []
   \<and> findProduct ''pA'' catalogDb = Some productA \<and> p_isActive productA
   \<and> findProduct ''pC'' catalogDb = Some productC \<and> p_isActive productC
   \<and> emptyRedis (getCartKey userRequest) = None
   \<and> fst (addToCart exampleEnv userRequest ''pA'' (emptyRedis, catalogDb)) = Inr 1
   \<and> fst (addToCart exampleEnv userRequest ''pC''
            (snd (addToCart exampleEnv userRequest ''pA'' (emptyRedis, catalogDb)), catalogDb)) = Inr 2
   \<and> (\<exists>ps total.
         getCart exampleEnv userRequest
           (snd (addToCart exampleEnv userRequest ''pC''
              (snd (addToCart exampleEnv userRequest ''pA'' (emptyRedis, catalogDb)), catalogDb)),
            catalogDb) = Inr (ps, total)
       \<and> p_id ` set ps = {''pA'', ''pC''})
   \<and> (emptyRedis(''cart:user:u1'' \<mapsto> [''pC''])) (getCartKey userRequest) = Some [''pC'']
   \<and> ''pA'' \<notin> set [''pC'']
   \<and> removeFromCart exampleEnv userRequest ''pA'' (emptyRedis(''cart:user:u1'' \<mapsto> [''pC'']))
       = (Inr (length [''pC'']), emptyRedis(''cart:user:u1'' \<mapsto> [''pC'']))"
proof -
  have h: "faults exampleEnv = []" "''pA'' \<noteq> ''pC''" "''pA'' \<noteq> []" "''pC'' \<noteq> []"
    "findProduct ''pA'' catalogDb = Some productA" "p_isActive productA"
    "findProduct ''pC'' catalogDb = Some productC" "p_isActive productC"
    "emptyRedis (getCartKey userRequest) = None"
    by (simp_all add: exampleEnv_def findProduct_def catalogDb_def productA_def productB_def
        productC_def emptyRedis_def)
  have s: "(emptyRedis(''cart:user:u1'' \<mapsto> [''pC''])) (getCartKey userRequest) = Some [''pC'']"
    "''pA'' \<notin> set [''pC'']" "[''pC''] \<noteq> []"
    by (simp_all add: getCartKey_def userRequest_def)
  note t = cart_round_trip [where e=exampleEnv and req=userRequest and ?p1.0="''pA''"
      and ?p2.0="''pC''" and d=catalogDb and a=productA and b=productC and rd=emptyRedis
      and rd'="emptyRedis(''cart:user:u1'' \<mapsto> [''pC''])" and ids="[''pC'']" and q="''pA''",
      OF h]
  from t s have c:
    "fst (addToCart exampleEnv userRequest ''pA'' (emptyRedis, catalogDb)) = Inr 1"
    "fst (addToCart exampleEnv userRequest ''pC''
            (snd (addToCart exampleEnv userRequest ''pA'' (emptyRedis, catalogDb)), catalogDb)) = Inr 2"
    "\<exists>ps total.
         getCart exampleEnv userRequest
           (snd (addToCart exampleEnv userRequest ''pC''
              (snd (addToCart exampleEnv userRequest ''pA'' (emptyRedis, catalogDb)), catalogDb)),
            catalogDb) = Inr (ps, total)
       \<and> p_id ` set ps = {''pA'', ''pC''}"
    "removeFromCart exampleEnv userRequest ''pA'' (emptyRedis(''cart:user:u1'' \<mapsto> [''pC'']))
       = (Inr (length [''pC'']), emptyRedis(''cart:user:u1'' \<mapsto> [''pC'']))"
    by blast+
  from h s(1,2) c show ?thesis by blast
qed

end
